theory Spec2Isabelle
  imports Complex_Main
begin

section \<open>Engine collaborators\<close>

text \<open>
  \<^verbatim>\<open>terrain_storage.cpp\<close> talks to three engine facilities: value types
  (\<^verbatim>\<open>Vector3\<close>, \<^verbatim>\<open>Vector2i\<close>, \<^verbatim>\<open>Color\<close>), the pixel grid \<^verbatim>\<open>Image\<close>, and the
  \<^verbatim>\<open>RenderingServer\<close> singleton. They are embedded at their interface. Floats are
  exact reals and \<^verbatim>\<open>int\<close> is an unbounded integer: rounding of 32-bit floats, the
  8-bit quantisation of a pixel buffer and 32-bit overflow are outside the embedding.
  A \<^verbatim>\<open>Ref<T>\<close> is an optional value (\<open>None\<close> is the null reference); sharing
  between references to one object is not tracked.
\<close>

type_synonym RID = nat

definition RID_null :: RID where
  "RID_null = 0"

definition is_valid :: "RID \<Rightarrow> bool" where
  "is_valid r = (r \<noteq> 0)"

record Vector3 =
  vec_x :: real
  vec_y :: real
  vec_z :: real

type_synonym Vector2i = "int \<times> int"

definition Vector2i_add :: "Vector2i \<Rightarrow> Vector2i \<Rightarrow> Vector2i" where
  "Vector2i_add a b = (fst a + fst b, snd a + snd b)"

text \<open>\<^verbatim>\<open>Vector2i / int\<close> divides each component; it is only applied to the
  non-negative \<^verbatim>\<open>region_map_size\<close>, where C++ truncation and \<open>div\<close> agree.\<close>

definition Vector2i_div :: "Vector2i \<Rightarrow> int \<Rightarrow> Vector2i" where
  "Vector2i_div a k = (fst a div k, snd a div k)"

record Color =
  col_r :: real
  col_g :: real
  col_b :: real
  col_a :: real

definition mk_Color :: "real \<Rightarrow> real \<Rightarrow> real \<Rightarrow> real \<Rightarrow> Color" where
  "mk_Color r g b a = \<lparr>col_r = r, col_g = g, col_b = b, col_a = a\<rparr>"

subsection \<open>Image\<close>

datatype Format = FORMAT_RH | FORMAT_RG8 | FORMAT_RGBA8

text \<open>A pixel holds the channels its format has: one for \<^verbatim>\<open>FORMAT_RH\<close>, red and
  green for \<^verbatim>\<open>FORMAT_RG8\<close>, four for \<^verbatim>\<open>FORMAT_RGBA8\<close>.\<close>

fun channels_of :: "Format \<Rightarrow> Color \<Rightarrow> real list" where
  "channels_of FORMAT_RH c = [col_r c]"
| "channels_of FORMAT_RG8 c = [col_r c, col_g c]"
| "channels_of FORMAT_RGBA8 c = [col_r c, col_g c, col_b c, col_a c]"

record Image =
  img_width :: int
  img_height :: int
  img_format :: Format
  img_data :: "real list list"

text \<open>\<^verbatim>\<open>Image::create(w, h, false, format)\<close>: a zero-initialised row-major buffer.
  The engine refuses non-positive or oversized dimensions; the storage only passes
  \<^verbatim>\<open>region_size\<close> (64..2048 by \<^verbatim>\<open>set_region_size\<close>) and \<^verbatim>\<open>region_map_size\<close>.\<close>

definition Image_create :: "int \<Rightarrow> int \<Rightarrow> Format \<Rightarrow> Image" where
  "Image_create w h f =
     \<lparr>img_width = w, img_height = h, img_format = f,
      img_data = replicate (nat (w * h)) (channels_of f (mk_Color 0 0 0 0))\<rparr>"

definition Image_fill :: "Image \<Rightarrow> Color \<Rightarrow> Image" where
  "Image_fill img c =
     img\<lparr>img_data := replicate (length (img_data img)) (channels_of (img_format img) c)\<rparr>"

text \<open>\<^verbatim>\<open>Image::set_pixelv\<close>: the engine's bounds check (\<^verbatim>\<open>ERR_FAIL_INDEX\<close>) reports
  and leaves the image as it is when the coordinate is outside the grid.\<close>

definition Image_set_pixelv :: "Image \<Rightarrow> Vector2i \<Rightarrow> Color \<Rightarrow> Image" where
  "Image_set_pixelv img p c =
     (if 0 \<le> fst p \<and> fst p < img_width img \<and> 0 \<le> snd p \<and> snd p < img_height img
      then img\<lparr>img_data :=
             (img_data img)[nat (snd p * img_width img + fst p) := channels_of (img_format img) c]\<rparr>
      else img)"

definition Image_get_pixelv :: "Image \<Rightarrow> Vector2i \<Rightarrow> real list" where
  "Image_get_pixelv img p = img_data img ! nat (snd p * img_width img + fst p)"

subsection \<open>Array\<close>

datatype error =
    ERR_FAIL_COND string
  | CRASH_BAD_INDEX
  | CRASH_NULL_REF

text \<open>\<^verbatim>\<open>Array::operator[]\<close> is unchecked in the source; the engine aborts on a bad
  index. \<^verbatim>\<open>Array::remove_at\<close> reports a bad index and removes nothing.\<close>

definition Array_get :: "'a list \<Rightarrow> int \<Rightarrow> error + 'a" where
  "Array_get xs i =
     (if 0 \<le> i \<and> i < int (length xs) then Inr (xs ! nat i) else Inl CRASH_BAD_INDEX)"

definition Array_remove_at :: "'a list \<Rightarrow> int \<Rightarrow> 'a list" where
  "Array_remove_at xs i =
     (if 0 \<le> i \<and> i < int (length xs) then take (nat i) xs @ drop (Suc (nat i)) xs else xs)"

subsection \<open>RenderingServer\<close>

datatype Texture = Texture2D "Image option" | Texture2DLayered "Image option list"

datatype Variant = VRID RID | VInt int | VFloat real

text \<open>The server hands out fresh handles (\<open>rs_last\<close> is the last one given), keeps the
  textures that are alive and the parameters set on each material.\<close>

record RenderingServer =
  rs_last :: nat
  rs_textures :: "RID \<rightharpoonup> Texture"
  rs_params :: "RID \<times> string \<rightharpoonup> Variant"

definition texture_2d_layered_create ::
  "RenderingServer \<Rightarrow> Image option list \<Rightarrow> RID \<times> RenderingServer" where
  "texture_2d_layered_create rs ls =
     (Suc (rs_last rs),
      rs\<lparr>rs_last := Suc (rs_last rs),
         rs_textures := (rs_textures rs)(Suc (rs_last rs) \<mapsto> Texture2DLayered ls)\<rparr>)"

definition texture_2d_create :: "RenderingServer \<Rightarrow> Image option \<Rightarrow> RID \<times> RenderingServer" where
  "texture_2d_create rs img =
     (Suc (rs_last rs),
      rs\<lparr>rs_last := Suc (rs_last rs),
         rs_textures := (rs_textures rs)(Suc (rs_last rs) \<mapsto> Texture2D img)\<rparr>)"

definition free_rid :: "RenderingServer \<Rightarrow> RID \<Rightarrow> RenderingServer" where
  "free_rid rs r = rs\<lparr>rs_textures := (rs_textures rs)(r := None)\<rparr>"

definition material_set_param ::
  "RenderingServer \<Rightarrow> RID \<Rightarrow> string \<Rightarrow> Variant \<Rightarrow> RenderingServer" where
  "material_set_param rs m name v = rs\<lparr>rs_params := (rs_params rs)((m, name) \<mapsto> v)\<rparr>"

section \<open>Terrain3DStorage\<close>

subsection \<open>Data\<close>

text \<open>The enums are bound to script as plain integers, so a caller can pass any
  integer; they are embedded as \<open>int\<close> with the enumerators as constants.\<close>

type_synonym MapType = int

definition TYPE_HEIGHT :: MapType where "TYPE_HEIGHT = 0"
definition TYPE_CONTROL :: MapType where "TYPE_CONTROL = 1"
definition TYPE_COLOR :: MapType where "TYPE_COLOR = 2"
definition TYPE_MAX :: MapType where "TYPE_MAX = 3"

type_synonym RegionSize = int

definition SIZE_64 :: RegionSize where "SIZE_64 = 64"
definition SIZE_128 :: RegionSize where "SIZE_128 = 128"
definition SIZE_256 :: RegionSize where "SIZE_256 = 256"
definition SIZE_512 :: RegionSize where "SIZE_512 = 512"
definition SIZE_1024 :: RegionSize where "SIZE_1024 = 1024"
definition SIZE_2048 :: RegionSize where "SIZE_2048 = 2048"

record Generated =
  gen_rid :: RID
  gen_image :: "Image option"
  gen_dirty :: bool

text \<open>Modelled from the spec: \<^verbatim>\<open>TerrainLayerMaterial3D\<close> is declared in
  \<^verbatim>\<open>terrain_material.h\<close>, which is not among the sources. A layer is its texture
  references and scalar parameters (albedo, uv scale), together with the signal
  connections the storage makes on it.\<close>

record TerrainLayerMaterial3D =
  lm_albedo :: Color
  lm_uv_scale :: Vector3
  lm_albedo_texture :: "Image option"
  lm_normal_texture :: "Image option"
  lm_connections :: "(string \<times> string) list"

text \<open>The two signals the storage emits: \<^verbatim>\<open>notify_property_list_changed()\<close> and
  \<^verbatim>\<open>emit_changed()\<close>.\<close>

datatype Signal = property_list_changed | changed

text \<open>The object's members, followed by the two pieces of engine state its methods
  act on: the rendering server and the signals emitted so far.\<close>

record Terrain3DStorage =
  region_size :: RegionSize
  max_height :: int
  material :: RID
  shader :: RID
  shader_override :: "RID option"
  noise_texture :: "RID option"
  noise_scale :: real
  noise_height :: real
  noise_fade :: real
  layers :: "TerrainLayerMaterial3D option list"
  region_offsets :: "Vector2i list"
  height_maps :: "Image option list"
  control_maps :: "Image option list"
  generated_region_map :: Generated
  generated_height_maps :: Generated
  generated_control_maps :: Generated
  generated_albedo_textures :: Generated
  generated_normal_textures :: Generated
  initialized :: bool
  server :: RenderingServer
  emitted :: "Signal list"

definition region_map_size :: int where
  "region_map_size = 16"

subsection \<open>Generated\<close>

definition Generated_clear :: "RenderingServer \<Rightarrow> Generated \<Rightarrow> RenderingServer \<times> Generated" where
  "Generated_clear rs g =
     ((if is_valid (gen_rid g) then free_rid rs (gen_rid g) else rs),
      \<lparr>gen_rid = RID_null, gen_image = None, gen_dirty = True\<rparr>)"

definition Generated_create_layers ::
  "RenderingServer \<Rightarrow> Generated \<Rightarrow> Image option list \<Rightarrow> RenderingServer \<times> Generated" where
  "Generated_create_layers rs g p_layers =
     (if p_layers \<noteq> []
      then (let (r, rs') = texture_2d_layered_create rs p_layers
            in (rs', g\<lparr>gen_rid := r, gen_dirty := False\<rparr>))
      else Generated_clear rs g)"

definition Generated_create_image ::
  "RenderingServer \<Rightarrow> Generated \<Rightarrow> Image option \<Rightarrow> RenderingServer \<times> Generated" where
  "Generated_create_image rs g p_image =
     (let (r, rs') = texture_2d_create rs p_image
      in (rs', \<lparr>gen_rid = r, gen_image = p_image, gen_dirty = False\<rparr>))"

definition is_dirty :: "Generated \<Rightarrow> bool" where
  "is_dirty g = gen_dirty g"

text \<open>The calls \<^verbatim>\<open>generated_X.clear()\<close> on the five members of the storage.\<close>

definition clear_height_maps :: "Terrain3DStorage \<Rightarrow> Terrain3DStorage" where
  "clear_height_maps s =
     (let (rs, g) = Generated_clear (server s) (generated_height_maps s)
      in s\<lparr>generated_height_maps := g, server := rs\<rparr>)"

definition clear_control_maps :: "Terrain3DStorage \<Rightarrow> Terrain3DStorage" where
  "clear_control_maps s =
     (let (rs, g) = Generated_clear (server s) (generated_control_maps s)
      in s\<lparr>generated_control_maps := g, server := rs\<rparr>)"

definition clear_region_map :: "Terrain3DStorage \<Rightarrow> Terrain3DStorage" where
  "clear_region_map s =
     (let (rs, g) = Generated_clear (server s) (generated_region_map s)
      in s\<lparr>generated_region_map := g, server := rs\<rparr>)"

definition clear_albedo_textures :: "Terrain3DStorage \<Rightarrow> Terrain3DStorage" where
  "clear_albedo_textures s =
     (let (rs, g) = Generated_clear (server s) (generated_albedo_textures s)
      in s\<lparr>generated_albedo_textures := g, server := rs\<rparr>)"

definition clear_normal_textures :: "Terrain3DStorage \<Rightarrow> Terrain3DStorage" where
  "clear_normal_textures s =
     (let (rs, g) = Generated_clear (server s) (generated_normal_textures s)
      in s\<lparr>generated_normal_textures := g, server := rs\<rparr>)"

definition notify_property_list_changed :: "Terrain3DStorage \<Rightarrow> Terrain3DStorage" where
  "notify_property_list_changed s = s\<lparr>emitted := emitted s @ [property_list_changed]\<rparr>"

definition emit_changed :: "Terrain3DStorage \<Rightarrow> Terrain3DStorage" where
  "emit_changed s = s\<lparr>emitted := emitted s @ [changed]\<rparr>"

subsection \<open>Region size\<close>

definition set_region_size :: "Terrain3DStorage \<Rightarrow> RegionSize \<Rightarrow> error + Terrain3DStorage" where
  "set_region_size s p_size =
     (if p_size < SIZE_64 then Inl (ERR_FAIL_COND ''p_size < SIZE_64'')
      else if p_size > SIZE_2048 then Inl (ERR_FAIL_COND ''p_size > SIZE_2048'')
      else (let s1 = s\<lparr>region_size := p_size\<rparr>;
                rs1 = material_set_param (server s1) (material s1) ''region_size''
                        (VInt (region_size s1));
                rs2 = material_set_param rs1 (material s1) ''region_pixel_size''
                        (VFloat (1 / real_of_int (region_size s1)))
            in Inr (s1\<lparr>server := rs2\<rparr>)))"

definition get_region_size :: "Terrain3DStorage \<Rightarrow> RegionSize" where
  "get_region_size s = region_size s"

subsection \<open>Region index\<close>

text \<open>\<^verbatim>\<open>_get_offset_from\<close> (an Isabelle name cannot start with an underscore): the
  grid snap \<open>floor (xz / region_size + (0.5, 0.5))\<close>. The divisor is a region size, which
  \<^verbatim>\<open>set_region_size\<close> keeps within 64..2048; the properties below that depend on the
  snap assume a region size in that range.\<close>

definition get_offset_from :: "Terrain3DStorage \<Rightarrow> Vector3 \<Rightarrow> Vector2i" where
  "get_offset_from s p =
     (\<lfloor>vec_x p / real_of_int (region_size s) + 1 / 2\<rfloor>,
      \<lfloor>vec_z p / real_of_int (region_size s) + 1 / 2\<rfloor>)"

text \<open>The search loop of \<^verbatim>\<open>get_region_index\<close>, from position \<open>i\<close> on: the first
  matching offset wins, \<open>-1\<close> when none matches.\<close>

fun find_offset :: "Vector2i list \<Rightarrow> Vector2i \<Rightarrow> int \<Rightarrow> int" where
  "find_offset [] uv_offset i = - 1"
| "find_offset (ofs # rest) uv_offset i =
     (if ofs = uv_offset then i else find_offset rest uv_offset (i + 1))"

definition get_region_index :: "Terrain3DStorage \<Rightarrow> Vector3 \<Rightarrow> int" where
  "get_region_index s p = find_offset (region_offsets s) (get_offset_from s p) 0"

definition has_region :: "Terrain3DStorage \<Rightarrow> Vector3 \<Rightarrow> bool" where
  "has_region s p = (get_region_index s p \<noteq> - 1)"

definition get_region_count :: "Terrain3DStorage \<Rightarrow> int" where
  "get_region_count s = int (length (region_offsets s))"

definition set_region_offsets :: "Terrain3DStorage \<Rightarrow> Vector2i list \<Rightarrow> Terrain3DStorage" where
  "set_region_offsets s p_array = s\<lparr>region_offsets := p_array\<rparr>"

definition get_region_offsets :: "Terrain3DStorage \<Rightarrow> Vector2i list" where
  "get_region_offsets s = region_offsets s"

subsection \<open>The update pass\<close>

text \<open>The loop of \<^verbatim>\<open>_update_regions\<close> that writes one cell per region, from index
  \<open>i\<close> on.\<close>

fun encode_regions :: "Image \<Rightarrow> Vector2i list \<Rightarrow> int \<Rightarrow> Image" where
  "encode_regions img [] i = img"
| "encode_regions img (ofs # rest) i =
     encode_regions
       (Image_set_pixelv img
          (Vector2i_add ofs (Vector2i_div (region_map_size, region_map_size) 2))
          (mk_Color (real_of_int (i + 1) / 255) 1 0 1))
       rest (i + 1)"

text \<open>\<^verbatim>\<open>_update_regions\<close> is four blocks in sequence: one guarded rebuild for each
  of the height-map array, the control-map array and the region map, then the four
  parameters pushed to the material. Each block is a function of its own here.\<close>

definition update_height_maps :: "Terrain3DStorage \<Rightarrow> Terrain3DStorage" where
  "update_height_maps s =
     (if is_dirty (generated_height_maps s)
      then (let (rs, g) = Generated_create_layers (server s)
                            (generated_height_maps s) (height_maps s)
            in s\<lparr>generated_height_maps := g, server := rs\<rparr>)
      else s)"

definition update_control_maps :: "Terrain3DStorage \<Rightarrow> Terrain3DStorage" where
  "update_control_maps s =
     (if is_dirty (generated_control_maps s)
      then (let (rs, g) = Generated_create_layers (server s)
                            (generated_control_maps s) (control_maps s)
            in s\<lparr>generated_control_maps := g, server := rs\<rparr>)
      else s)"

definition update_region_map :: "Terrain3DStorage \<Rightarrow> Terrain3DStorage" where
  "update_region_map s =
     (if is_dirty (generated_region_map s)
      then (let img0 = Image_create region_map_size region_map_size FORMAT_RG8;
                img1 = Image_fill img0 (mk_Color 0 0 0 1);
                img2 = encode_regions img1 (region_offsets s) 0;
                (rs, g) = Generated_create_image (server s) (generated_region_map s) (Some img2)
            in s\<lparr>generated_region_map := g, server := rs\<rparr>)
      else s)"

definition push_region_params :: "Terrain3DStorage \<Rightarrow> Terrain3DStorage" where
  "push_region_params s =
     (let rs1 = material_set_param (server s) (material s) ''height_maps''
                  (VRID (gen_rid (generated_height_maps s)));
          rs2 = material_set_param rs1 (material s) ''control_maps''
                  (VRID (gen_rid (generated_control_maps s)));
          rs3 = material_set_param rs2 (material s) ''region_map''
                  (VRID (gen_rid (generated_region_map s)));
          rs4 = material_set_param rs3 (material s) ''region_map_size'' (VInt region_map_size)
      in s\<lparr>server := rs4\<rparr>)"

definition update_regions :: "Terrain3DStorage \<Rightarrow> Terrain3DStorage" where
  "update_regions s =
     push_region_params (update_region_map (update_control_maps (update_height_maps s)))"

subsection \<open>Adding and removing regions\<close>

definition add_region :: "Terrain3DStorage \<Rightarrow> Vector3 \<Rightarrow> error + Terrain3DStorage" where
  "add_region s p =
     (if has_region s p then Inl (ERR_FAIL_COND ''has_region(p_global_position)'')
      else (let hmap_img = Image_create (region_size s) (region_size s) FORMAT_RH;
                cmap_img = Image_create (region_size s) (region_size s) FORMAT_RGBA8;
                uv_offset = get_offset_from s p;
                hmap_img' = Image_fill hmap_img (mk_Color 0 0 0 1);
                cmap_img' = Image_fill cmap_img (mk_Color 0 0 0 1);
                s1 = s\<lparr>height_maps := height_maps s @ [Some hmap_img'],
                       control_maps := control_maps s @ [Some cmap_img'],
                       region_offsets := region_offsets s @ [uv_offset]\<rparr>;
                s2 = clear_region_map (clear_control_maps (clear_height_maps s1));
                s3 = update_regions s2
            in Inr (emit_changed (notify_property_list_changed s3))))"

definition remove_region :: "Terrain3DStorage \<Rightarrow> Vector3 \<Rightarrow> error + Terrain3DStorage" where
  "remove_region s p =
     (if get_region_count s = 1 then Inr s
      else (let index = get_region_index s p
            in if index = - 1 then Inl (ERR_FAIL_COND ''Map does not exist.'')
               else (let s1 = s\<lparr>region_offsets := Array_remove_at (region_offsets s) index,
                                height_maps := Array_remove_at (height_maps s) index,
                                control_maps := Array_remove_at (control_maps s) index\<rparr>;
                         s2 = clear_region_map (clear_control_maps (clear_height_maps s1));
                         s3 = update_regions s2
                     in Inr (emit_changed (notify_property_list_changed s3)))))"

subsection \<open>Maps\<close>

definition get_map :: "Terrain3DStorage \<Rightarrow> int \<Rightarrow> MapType \<Rightarrow> error + Image option" where
  "get_map s p_region_index p_map_type =
     (if p_map_type = TYPE_HEIGHT then Array_get (height_maps s) p_region_index
      else if p_map_type = TYPE_CONTROL then Array_get (control_maps s) p_region_index
      else if p_map_type = TYPE_COLOR then Inr None
      else if p_map_type = TYPE_MAX then Inr None
      else Inr None)"

definition force_update_maps :: "Terrain3DStorage \<Rightarrow> MapType \<Rightarrow> Terrain3DStorage" where
  "force_update_maps s p_map_type =
     update_regions
       (if p_map_type = TYPE_HEIGHT then clear_height_maps s
        else if p_map_type = TYPE_CONTROL then clear_control_maps s
        else if p_map_type = TYPE_COLOR then s
        else clear_control_maps (clear_height_maps s))"

definition set_height_maps :: "Terrain3DStorage \<Rightarrow> Image option list \<Rightarrow> Terrain3DStorage" where
  "set_height_maps s p_maps = force_update_maps (s\<lparr>height_maps := p_maps\<rparr>) TYPE_HEIGHT"

definition set_control_maps :: "Terrain3DStorage \<Rightarrow> Image option list \<Rightarrow> Terrain3DStorage" where
  "set_control_maps s p_maps = force_update_maps (s\<lparr>control_maps := p_maps\<rparr>) TYPE_CONTROL"

subsection \<open>Layers\<close>

text \<open>A write through \<^verbatim>\<open>Array::operator[]\<close> is as unchecked as a read.\<close>

definition Array_set :: "'a list \<Rightarrow> int \<Rightarrow> 'a \<Rightarrow> error + 'a list" where
  "Array_set xs i v =
     (if 0 \<le> i \<and> i < int (length xs) then Inr (xs[nat i := v]) else Inl CRASH_BAD_INDEX)"

text \<open>\<^verbatim>\<open>Object::connect\<close> and \<^verbatim>\<open>Object::disconnect\<close> on a layer, for a callable of
  the storage named by its method; disconnecting what is not connected is reported by
  the engine and changes nothing.\<close>

definition is_connected :: "TerrainLayerMaterial3D \<Rightarrow> string \<Rightarrow> string \<Rightarrow> bool" where
  "is_connected l sig method = ((sig, method) \<in> set (lm_connections l))"

definition connect :: "TerrainLayerMaterial3D \<Rightarrow> string \<Rightarrow> string \<Rightarrow> TerrainLayerMaterial3D" where
  "connect l sig method = l\<lparr>lm_connections := lm_connections l @ [(sig, method)]\<rparr>"

definition disconnect :: "TerrainLayerMaterial3D \<Rightarrow> string \<Rightarrow> string \<Rightarrow> TerrainLayerMaterial3D" where
  "disconnect l sig method = l\<lparr>lm_connections := removeAll (sig, method) (lm_connections l)\<rparr>"

text \<open>The body of the loop of \<^verbatim>\<open>_update_layers\<close>, and the loop; a null layer is
  dereferenced there.\<close>

definition connect_layer :: "TerrainLayerMaterial3D \<Rightarrow> TerrainLayerMaterial3D" where
  "connect_layer l =
     (let l1 = (if \<not> is_connected l ''texture_changed'' ''_update_textures''
                then connect l ''texture_changed'' ''_update_textures'' else l);
          l2 = (if \<not> is_connected l1 ''value_changed'' ''_update_values''
                then connect l1 ''value_changed'' ''_update_values'' else l1)
      in l2)"

fun connect_layers ::
  "TerrainLayerMaterial3D option list \<Rightarrow> error + TerrainLayerMaterial3D option list" where
  "connect_layers [] = Inr []"
| "connect_layers (None # rest) = Inl CRASH_NULL_REF"
| "connect_layers (Some l # rest) =
     (case connect_layers rest of
        Inl e \<Rightarrow> Inl e
      | Inr rest' \<Rightarrow> Inr (Some (connect_layer l) # rest'))"

text \<open>The loop of \<^verbatim>\<open>_update_arrays\<close> collects one uv scale and one colour per layer
  into two local arrays.\<close>

fun layer_values ::
  "TerrainLayerMaterial3D option list \<Rightarrow> error + Vector3 list \<times> Color list" where
  "layer_values [] = Inr ([], [])"
| "layer_values (None # rest) = Inl CRASH_NULL_REF"
| "layer_values (Some l # rest) =
     (case layer_values rest of
        Inl e \<Rightarrow> Inl e
      | Inr (uv_scales, colors) \<Rightarrow> Inr (lm_uv_scale l # uv_scales, lm_albedo l # colors))"

definition update_arrays :: "Terrain3DStorage \<Rightarrow> error + Terrain3DStorage" where
  "update_arrays s =
     (case layer_values (layers s) of
        Inl e \<Rightarrow> Inl e
      | Inr (uv_scales, colors) \<Rightarrow> Inr (emit_changed s))"

text \<open>The loops of \<^verbatim>\<open>_update_textures\<close> collect one texture per layer, with the
  getter \<open>tex\<close>.\<close>

fun layer_textures ::
  "(TerrainLayerMaterial3D \<Rightarrow> Image option) \<Rightarrow> TerrainLayerMaterial3D option list \<Rightarrow>
   error + Image option list" where
  "layer_textures tex [] = Inr []"
| "layer_textures tex (None # rest) = Inl CRASH_NULL_REF"
| "layer_textures tex (Some l # rest) =
     (case layer_textures tex rest of
        Inl e \<Rightarrow> Inl e
      | Inr arr \<Rightarrow> Inr (tex l # arr))"

definition update_albedo_textures :: "Terrain3DStorage \<Rightarrow> error + Terrain3DStorage" where
  "update_albedo_textures s =
     (if is_dirty (generated_albedo_textures s)
      then (case layer_textures lm_albedo_texture (layers s) of
              Inl e \<Rightarrow> Inl e
            | Inr albedo_texture_array \<Rightarrow>
                (let (rs, g) = Generated_create_layers (server s)
                                 (generated_albedo_textures s) albedo_texture_array
                 in Inr (s\<lparr>generated_albedo_textures := g, server := rs\<rparr>)))
      else Inr s)"

definition update_normal_textures :: "Terrain3DStorage \<Rightarrow> error + Terrain3DStorage" where
  "update_normal_textures s =
     (if is_dirty (generated_normal_textures s)
      then (case layer_textures lm_normal_texture (layers s) of
              Inl e \<Rightarrow> Inl e
            | Inr normal_texture_array \<Rightarrow>
                (let (rs, g) = Generated_create_layers (server s)
                                 (generated_normal_textures s) normal_texture_array
                 in Inr (s\<lparr>generated_normal_textures := g, server := rs\<rparr>)))
      else Inr s)"

definition update_textures :: "Terrain3DStorage \<Rightarrow> error + Terrain3DStorage" where
  "update_textures s =
     (case update_albedo_textures s of
        Inl e \<Rightarrow> Inl e
      | Inr s1 \<Rightarrow> update_normal_textures s1)"

definition update_layers :: "Terrain3DStorage \<Rightarrow> error + Terrain3DStorage" where
  "update_layers s =
     (case connect_layers (layers s) of
        Inl e \<Rightarrow> Inl e
      | Inr ls \<Rightarrow>
          (case update_arrays (s\<lparr>layers := ls\<rparr>) of
             Inl e \<Rightarrow> Inl e
           | Inr s1 \<Rightarrow> update_textures s1))"

text \<open>\<^verbatim>\<open>set_layer\<close>: the three branches on the index and the material, then the
  common tail. The layer taken out is disconnected and leaves the storage with its
  connections.\<close>

definition set_layer ::
  "Terrain3DStorage \<Rightarrow> TerrainLayerMaterial3D option \<Rightarrow> int \<Rightarrow> error + Terrain3DStorage" where
  "set_layer s p_material p_index =
     (case (if p_index < int (length (layers s))
            then (case p_material of
                    None \<Rightarrow>
                      (case Array_get (layers s) p_index of
                         Inl e \<Rightarrow> Inl e
                       | Inr None \<Rightarrow> Inl CRASH_NULL_REF
                       | Inr (Some material_to_remove) \<Rightarrow>
                           (let m1 = disconnect material_to_remove
                                       ''texture_changed'' ''_update_textures'';
                                m2 = disconnect m1 ''value_changed'' ''_update_arrays''
                            in Inr (Array_remove_at (layers s) p_index)))
                  | Some m \<Rightarrow> Array_set (layers s) p_index (Some m))
            else Inr (layers s @ [p_material])) of
        Inl e \<Rightarrow> Inl e
      | Inr ls \<Rightarrow>
          (case update_layers
                  (clear_normal_textures (clear_albedo_textures (s\<lparr>layers := ls\<rparr>))) of
             Inl e \<Rightarrow> Inl e
           | Inr s1 \<Rightarrow> Inr (notify_property_list_changed s1)))"

definition get_layer :: "Terrain3DStorage \<Rightarrow> int \<Rightarrow> error + TerrainLayerMaterial3D option" where
  "get_layer s p_index = Array_get (layers s) p_index"

definition set_layers ::
  "Terrain3DStorage \<Rightarrow> TerrainLayerMaterial3D option list \<Rightarrow> error + Terrain3DStorage" where
  "set_layers s p_layers =
     update_layers (clear_normal_textures (clear_albedo_textures (s\<lparr>layers := p_layers\<rparr>)))"

definition get_layers :: "Terrain3DStorage \<Rightarrow> TerrainLayerMaterial3D option list" where
  "get_layers s = layers s"

definition get_layer_count :: "Terrain3DStorage \<Rightarrow> int" where
  "get_layer_count s = int (length (layers s))"

subsection \<open>Reading a result\<close>

text \<open>A method that hits \<^verbatim>\<open>ERR_FAIL_COND\<close> prints the error and returns: the
  object keeps the state it had. \<open>state_after\<close> gives the state of the object once
  the call is over.\<close>

definition state_after :: "Terrain3DStorage \<Rightarrow> error + Terrain3DStorage \<Rightarrow> Terrain3DStorage" where
  "state_after s r = (case r of Inl e \<Rightarrow> s | Inr s' \<Rightarrow> s')"

subsection \<open>Sample states\<close>

text \<open>The object as its constructor leaves it: the member initialisers of the header,
  the material and shader handles obtained by \<^verbatim>\<open>_update_material\<close>, and the two
  parameters written by its closing \<^verbatim>\<open>set_region_size(region_size)\<close>. The shader
  source text is not part of the embedding.\<close>

definition new_storage :: Terrain3DStorage where
  "new_storage =
     \<lparr>region_size = SIZE_1024, max_height = 512, material = 1, shader = 2,
      shader_override = None, noise_texture = None,
      noise_scale = 1, noise_height = 1 / 2, noise_fade = 5,
      layers = [], region_offsets = [], height_maps = [], control_maps = [],
      generated_region_map = \<lparr>gen_rid = RID_null, gen_image = None, gen_dirty = False\<rparr>,
      generated_height_maps = \<lparr>gen_rid = RID_null, gen_image = None, gen_dirty = False\<rparr>,
      generated_control_maps = \<lparr>gen_rid = RID_null, gen_image = None, gen_dirty = False\<rparr>,
      generated_albedo_textures = \<lparr>gen_rid = RID_null, gen_image = None, gen_dirty = False\<rparr>,
      generated_normal_textures = \<lparr>gen_rid = RID_null, gen_image = None, gen_dirty = False\<rparr>,
      initialized = True,
      server = \<lparr>rs_last = 2, rs_textures = Map.empty,
                 rs_params = [(1, ''region_size'') \<mapsto> VInt 1024,
                              (1, ''region_pixel_size'') \<mapsto> VFloat (1 / 1024)]\<rparr>,
      emitted = []\<rparr>"

definition world_pos :: "real \<Rightarrow> real \<Rightarrow> real \<Rightarrow> Vector3" where
  "world_pos x y z = \<lparr>vec_x = x, vec_y = y, vec_z = z\<rparr>"

text \<open>One region at the origin, then a second one a region further along both axes.\<close>

definition one_region :: Terrain3DStorage where
  "one_region = state_after new_storage (add_region new_storage (world_pos 0 0 0))"

definition two_regions :: Terrain3DStorage where
  "two_regions = state_after one_region (add_region one_region (world_pos 1024 0 1024))"

definition three_regions :: Terrain3DStorage where
  "three_regions = state_after two_regions (add_region two_regions (world_pos 2048 0 2048))"

text \<open>A storage filled through its list setters, as loading a saved terrain does: 255
  regions whose offsets are the first 255 cells of the 16 by 16 region map, row by row.\<close>

definition grid_offsets :: "nat \<Rightarrow> Vector2i list" where
  "grid_offsets n = map (\<lambda>k. (int (k mod 16) - 8, int (k div 16) - 8)) [0..<n]"

definition crowded_storage :: Terrain3DStorage where
  "crowded_storage =
     set_region_offsets
       (set_control_maps
          (set_height_maps new_storage
             (replicate 255 (Some (Image_fill (Image_create 1024 1024 FORMAT_RH)
                                     (mk_Color 0 0 0 1)))))
          (replicate 255 (Some (Image_fill (Image_create 1024 1024 FORMAT_RGBA8)
                                  (mk_Color 0 0 0 1)))))
       (grid_offsets 255)"

text \<open>A storage with 256 layers of one plain material.\<close>

definition plain_layer :: TerrainLayerMaterial3D where
  "plain_layer =
     \<lparr>lm_albedo = mk_Color 1 1 1 1, lm_uv_scale = world_pos 1 1 1,
      lm_albedo_texture = None, lm_normal_texture = None, lm_connections = []\<rparr>"

definition layered_storage :: Terrain3DStorage where
  "layered_storage =
     state_after new_storage (set_layers new_storage (replicate 256 (Some plain_layer)))"

section \<open>Auxiliary facts\<close>

lemmas clear_defs = clear_height_maps_def clear_control_maps_def clear_region_map_def
  clear_albedo_textures_def clear_normal_textures_def Generated_clear_def
lemmas create_defs = Generated_create_layers_def Generated_create_image_def
  texture_2d_layered_create_def texture_2d_create_def
lemmas update_defs = update_regions_def update_height_maps_def update_control_maps_def
  update_region_map_def push_region_params_def
lemmas signal_defs = notify_property_list_changed_def emit_changed_def
lemmas index_defs = has_region_def get_region_index_def get_region_count_def get_offset_from_def
lemmas size_defs = SIZE_64_def SIZE_128_def SIZE_256_def SIZE_512_def SIZE_1024_def SIZE_2048_def
lemmas type_defs = TYPE_HEIGHT_def TYPE_CONTROL_def TYPE_COLOR_def TYPE_MAX_def

lemma find_offset_missing:
  "0 \<le> i \<Longrightarrow> (find_offset xs uv i = - 1) = (uv \<notin> set xs)"
proof (induction xs uv i rule: find_offset.induct)
  case (1 uv i)
  then show ?case by simp
next
  case (2 ofs rest uv i)
  then show ?case by auto
qed

lemma find_offset_append_new:
  "uv \<notin> set xs \<Longrightarrow> find_offset (xs @ [uv]) uv i = i + int (length xs)"
  by (induction xs uv i rule: find_offset.induct) auto

lemma update_regions_frame [simp]:
  "region_offsets (update_regions s) = region_offsets s"
  "height_maps (update_regions s) = height_maps s"
  "control_maps (update_regions s) = control_maps s"
  "region_size (update_regions s) = region_size s"
  "layers (update_regions s) = layers s"
  "emitted (update_regions s) = emitted s"
  "material (update_regions s) = material s"
  "generated_albedo_textures (update_regions s) = generated_albedo_textures s"
  "generated_normal_textures (update_regions s) = generated_normal_textures s"
  by (simp_all add: update_defs Let_def split_beta)

lemma clear_height_maps_frame [simp]:
  "region_offsets (clear_height_maps s) = region_offsets s"
  "height_maps (clear_height_maps s) = height_maps s"
  "control_maps (clear_height_maps s) = control_maps s"
  "region_size (clear_height_maps s) = region_size s"
  "layers (clear_height_maps s) = layers s"
  "emitted (clear_height_maps s) = emitted s"
  "material (clear_height_maps s) = material s"
  "generated_control_maps (clear_height_maps s) = generated_control_maps s"
  "generated_region_map (clear_height_maps s) = generated_region_map s"
  "generated_albedo_textures (clear_height_maps s) = generated_albedo_textures s"
  "generated_normal_textures (clear_height_maps s) = generated_normal_textures s"
  "generated_height_maps (clear_height_maps s) =
     \<lparr>gen_rid = RID_null, gen_image = None, gen_dirty = True\<rparr>"
  by (simp_all add: clear_height_maps_def Generated_clear_def)

lemma clear_control_maps_frame [simp]:
  "region_offsets (clear_control_maps s) = region_offsets s"
  "height_maps (clear_control_maps s) = height_maps s"
  "control_maps (clear_control_maps s) = control_maps s"
  "region_size (clear_control_maps s) = region_size s"
  "layers (clear_control_maps s) = layers s"
  "emitted (clear_control_maps s) = emitted s"
  "material (clear_control_maps s) = material s"
  "generated_height_maps (clear_control_maps s) = generated_height_maps s"
  "generated_region_map (clear_control_maps s) = generated_region_map s"
  "generated_albedo_textures (clear_control_maps s) = generated_albedo_textures s"
  "generated_normal_textures (clear_control_maps s) = generated_normal_textures s"
  "generated_control_maps (clear_control_maps s) =
     \<lparr>gen_rid = RID_null, gen_image = None, gen_dirty = True\<rparr>"
  by (simp_all add: clear_control_maps_def Generated_clear_def)

lemma clear_region_map_frame [simp]:
  "region_offsets (clear_region_map s) = region_offsets s"
  "height_maps (clear_region_map s) = height_maps s"
  "control_maps (clear_region_map s) = control_maps s"
  "region_size (clear_region_map s) = region_size s"
  "layers (clear_region_map s) = layers s"
  "emitted (clear_region_map s) = emitted s"
  "material (clear_region_map s) = material s"
  "generated_height_maps (clear_region_map s) = generated_height_maps s"
  "generated_control_maps (clear_region_map s) = generated_control_maps s"
  "generated_albedo_textures (clear_region_map s) = generated_albedo_textures s"
  "generated_normal_textures (clear_region_map s) = generated_normal_textures s"
  "generated_region_map (clear_region_map s) =
     \<lparr>gen_rid = RID_null, gen_image = None, gen_dirty = True\<rparr>"
  by (simp_all add: clear_region_map_def Generated_clear_def)

lemma signals_frame [simp]:
  "region_offsets (emit_changed s) = region_offsets s"
  "height_maps (emit_changed s) = height_maps s"
  "control_maps (emit_changed s) = control_maps s"
  "region_size (emit_changed s) = region_size s"
  "layers (emit_changed s) = layers s"
  "server (emit_changed s) = server s"
  "material (emit_changed s) = material s"
  "generated_height_maps (emit_changed s) = generated_height_maps s"
  "generated_control_maps (emit_changed s) = generated_control_maps s"
  "generated_region_map (emit_changed s) = generated_region_map s"
  "generated_albedo_textures (emit_changed s) = generated_albedo_textures s"
  "generated_normal_textures (emit_changed s) = generated_normal_textures s"
  "region_offsets (notify_property_list_changed s) = region_offsets s"
  "height_maps (notify_property_list_changed s) = height_maps s"
  "control_maps (notify_property_list_changed s) = control_maps s"
  "region_size (notify_property_list_changed s) = region_size s"
  "layers (notify_property_list_changed s) = layers s"
  "server (notify_property_list_changed s) = server s"
  "material (notify_property_list_changed s) = material s"
  "generated_height_maps (notify_property_list_changed s) = generated_height_maps s"
  "generated_control_maps (notify_property_list_changed s) = generated_control_maps s"
  "generated_region_map (notify_property_list_changed s) = generated_region_map s"
  "generated_albedo_textures (notify_property_list_changed s) = generated_albedo_textures s"
  "generated_normal_textures (notify_property_list_changed s) = generated_normal_textures s"
  by (simp_all add: signal_defs)

lemma add_region_lists:
  "\<not> has_region s p \<Longrightarrow>
   region_offsets (state_after s (add_region s p)) = region_offsets s @ [get_offset_from s p]"
  "\<not> has_region s p \<Longrightarrow> isl (add_region s p) = False"
  "region_size (state_after s (add_region s p)) = region_size s"
  by (simp_all add: add_region_def state_after_def Let_def)

lemma one_region_offsets: "region_offsets one_region = [(0, 0)]"
  unfolding one_region_def
  by (subst add_region_lists) (simp_all add: new_storage_def world_pos_def index_defs)

lemma Array_remove_at_length:
  "0 \<le> i \<Longrightarrow> i < int (length xs) \<Longrightarrow> length (Array_remove_at xs i) = length xs - 1"
  by (auto simp add: Array_remove_at_def)

lemma Array_remove_at_before:
  "0 \<le> i \<Longrightarrow> i < int (length xs) \<Longrightarrow> 0 \<le> j \<Longrightarrow> j < i \<Longrightarrow>
   Array_remove_at xs i ! nat j = xs ! nat j"
  by (simp add: Array_remove_at_def nth_append)

lemma Array_remove_at_after:
  "0 \<le> i \<Longrightarrow> i < int (length xs) \<Longrightarrow> i \<le> j \<Longrightarrow> j < int (length xs) - 1 \<Longrightarrow>
   Array_remove_at xs i ! nat j = xs ! nat (j + 1)"
proof -
  assume a: "0 \<le> i" "i < int (length xs)" "i \<le> j" "j < int (length xs) - 1"
  then have len: "length (take (nat i) xs) = nat i" by simp
  from a have "Suc (nat i) + (nat j - nat i) = nat (j + 1)" by linarith
  with a len show ?thesis
    by (simp add: Array_remove_at_def nth_append)
qed

lemma add_region_maps:
  "\<not> has_region s p \<Longrightarrow>
   length (height_maps (state_after s (add_region s p))) = Suc (length (height_maps s))"
  "\<not> has_region s p \<Longrightarrow>
   length (control_maps (state_after s (add_region s p))) = Suc (length (control_maps s))"
  by (simp_all add: add_region_def state_after_def Let_def)

lemma sample_region_size:
  "region_size new_storage = 1024" "region_size one_region = 1024"
  "region_size two_regions = 1024" "region_size three_regions = 1024"
  by (simp_all add: one_region_def two_regions_def three_regions_def add_region_lists
      new_storage_def size_defs)

lemma one_region_fresh: "\<not> has_region one_region (world_pos 1024 0 1024)"
  by (simp add: index_defs one_region_offsets sample_region_size world_pos_def)

lemma two_regions_offsets: "region_offsets two_regions = [(0, 0), (1, 1)]"
  unfolding two_regions_def
  by (simp add: add_region_lists one_region_fresh one_region_offsets)
     (simp add: get_offset_from_def sample_region_size world_pos_def)

lemma two_regions_fresh: "\<not> has_region two_regions (world_pos 2048 0 2048)"
  by (simp add: index_defs two_regions_offsets sample_region_size world_pos_def)

lemma three_regions_offsets: "region_offsets three_regions = [(0, 0), (1, 1), (2, 2)]"
  unfolding three_regions_def
  by (simp add: add_region_lists two_regions_fresh two_regions_offsets)
     (simp add: get_offset_from_def sample_region_size world_pos_def)

lemma new_storage_fresh: "\<not> has_region new_storage p"
  by (simp add: index_defs new_storage_def)

lemma sample_maps_length:
  "length (height_maps one_region) = 1" "length (control_maps one_region) = 1"
  "length (height_maps two_regions) = 2" "length (control_maps two_regions) = 2"
  "length (height_maps three_regions) = 3" "length (control_maps three_regions) = 3"
proof -
  show 1: "length (height_maps one_region) = 1"
    unfolding one_region_def by (simp add: add_region_maps new_storage_fresh) (simp add: new_storage_def)
  show 2: "length (control_maps one_region) = 1"
    unfolding one_region_def by (simp add: add_region_maps new_storage_fresh) (simp add: new_storage_def)
  show 3: "length (height_maps two_regions) = 2"
    unfolding two_regions_def by (simp add: add_region_maps one_region_fresh 1)
  show 4: "length (control_maps two_regions) = 2"
    unfolding two_regions_def by (simp add: add_region_maps one_region_fresh 2)
  show "length (height_maps three_regions) = 3"
    unfolding three_regions_def by (simp add: add_region_maps two_regions_fresh 3)
  show "length (control_maps three_regions) = 3"
    unfolding three_regions_def by (simp add: add_region_maps two_regions_fresh 4)
qed

lemma update_regions_height:
  "generated_height_maps (update_regions s) =
     (if is_dirty (generated_height_maps s)
      then (if height_maps s \<noteq> []
            then (generated_height_maps s)\<lparr>gen_rid := Suc (rs_last (server s)), gen_dirty := False\<rparr>
            else \<lparr>gen_rid = RID_null, gen_image = None, gen_dirty = True\<rparr>)
      else generated_height_maps s)"
  by (simp add: update_defs Let_def split_beta create_defs Generated_clear_def)

lemma update_regions_control_clean:
  "\<not> is_dirty (generated_control_maps s) \<Longrightarrow>
   generated_control_maps (update_regions s) = generated_control_maps s"
  by (simp add: update_defs Let_def split_beta create_defs Generated_clear_def)

lemma update_regions_region_map_clean:
  "\<not> is_dirty (generated_region_map s) \<Longrightarrow>
   generated_region_map (update_regions s) = generated_region_map s"
  by (simp add: update_defs Let_def split_beta create_defs Generated_clear_def)

lemma update_regions_region_map_dirty:
  "is_dirty (generated_region_map s) \<Longrightarrow>
   gen_dirty (generated_region_map (update_regions s)) = False \<and>
   gen_image (generated_region_map (update_regions s)) =
     Some (encode_regions
            (Image_fill (Image_create region_map_size region_map_size FORMAT_RG8)
               (mk_Color 0 0 0 1))
            (region_offsets s) 0)"
  by (simp add: update_defs Let_def split_beta create_defs Generated_clear_def)

lemma update_regions_params:
  "rs_params (server (update_regions s)) (material s, ''height_maps'') =
     Some (VRID (gen_rid (generated_height_maps (update_regions s))))"
  "rs_params (server (update_regions s)) (material s, ''control_maps'') =
     Some (VRID (gen_rid (generated_control_maps (update_regions s))))"
  "rs_params (server (update_regions s)) (material s, ''region_map'') =
     Some (VRID (gen_rid (generated_region_map (update_regions s))))"
  "rs_params (server (update_regions s)) (material s, ''region_map_size'') =
     Some (VInt region_map_size)"
  by (simp_all add: update_defs Let_def split_beta material_set_param_def)

lemma update_height_maps_fixpoint:
  assumes "is_dirty (generated_height_maps t) \<Longrightarrow>
      height_maps t = [] \<and>
      generated_height_maps t = \<lparr>gen_rid = RID_null, gen_image = None, gen_dirty = True\<rparr>"
  shows "update_height_maps t = t"
  using assms by (cases "is_dirty (generated_height_maps t)")
    (simp_all add: update_height_maps_def Generated_create_layers_def Generated_clear_def
      is_valid_def RID_null_def)

lemma update_control_maps_fixpoint:
  assumes "is_dirty (generated_control_maps t) \<Longrightarrow>
      control_maps t = [] \<and>
      generated_control_maps t = \<lparr>gen_rid = RID_null, gen_image = None, gen_dirty = True\<rparr>"
  shows "update_control_maps t = t"
  using assms by (cases "is_dirty (generated_control_maps t)")
    (simp_all add: update_control_maps_def Generated_create_layers_def Generated_clear_def
      is_valid_def RID_null_def)

lemma push_region_params_fixpoint:
  assumes p1: "rs_params (server t) (material t, ''height_maps'') =
      Some (VRID (gen_rid (generated_height_maps t)))"
    and p2: "rs_params (server t) (material t, ''control_maps'') =
      Some (VRID (gen_rid (generated_control_maps t)))"
    and p3: "rs_params (server t) (material t, ''region_map'') =
      Some (VRID (gen_rid (generated_region_map t)))"
    and p4: "rs_params (server t) (material t, ''region_map_size'') = Some (VInt region_map_size)"
  shows "push_region_params t = t"
proof -
  have ps: "(rs_params (server t))
      ((material t, ''height_maps'') \<mapsto> VRID (gen_rid (generated_height_maps t)),
       (material t, ''control_maps'') \<mapsto> VRID (gen_rid (generated_control_maps t)),
       (material t, ''region_map'') \<mapsto> VRID (gen_rid (generated_region_map t)),
       (material t, ''region_map_size'') \<mapsto> VInt region_map_size) = rs_params (server t)"
    using p1 p2 p3 p4 by (simp add: fun_upd_idem)
  show ?thesis
    by (simp add: push_region_params_def material_set_param_def ps)
qed

lemma update_regions_fixpoint:
  assumes h: "is_dirty (generated_height_maps t) \<Longrightarrow>
      height_maps t = [] \<and>
      generated_height_maps t = \<lparr>gen_rid = RID_null, gen_image = None, gen_dirty = True\<rparr>"
    and c: "is_dirty (generated_control_maps t) \<Longrightarrow>
      control_maps t = [] \<and>
      generated_control_maps t = \<lparr>gen_rid = RID_null, gen_image = None, gen_dirty = True\<rparr>"
    and r: "\<not> is_dirty (generated_region_map t)"
    and p1: "rs_params (server t) (material t, ''height_maps'') =
      Some (VRID (gen_rid (generated_height_maps t)))"
    and p2: "rs_params (server t) (material t, ''control_maps'') =
      Some (VRID (gen_rid (generated_control_maps t)))"
    and p3: "rs_params (server t) (material t, ''region_map'') =
      Some (VRID (gen_rid (generated_region_map t)))"
    and p4: "rs_params (server t) (material t, ''region_map_size'') = Some (VInt region_map_size)"
  shows "update_regions t = t"
proof -
  have 1: "update_height_maps t = t" using h by (rule update_height_maps_fixpoint)
  have 2: "update_control_maps t = t" using c by (rule update_control_maps_fixpoint)
  have 3: "update_region_map t = t" using r by (simp add: update_region_map_def)
  have 4: "push_region_params t = t" using p1 p2 p3 p4 by (rule push_region_params_fixpoint)
  show ?thesis by (simp add: update_regions_def 1 2 3 4)
qed

lemma update_regions_height_settled:
  "is_dirty (generated_height_maps (update_regions s)) \<Longrightarrow>
   height_maps s = [] \<and>
   generated_height_maps (update_regions s) =
     \<lparr>gen_rid = RID_null, gen_image = None, gen_dirty = True\<rparr>"
  by (simp add: update_regions_height is_dirty_def split: if_splits)

lemma update_regions_control:
  "generated_control_maps (update_regions s) =
     (if is_dirty (generated_control_maps s)
      then (if control_maps s \<noteq> []
            then (generated_control_maps s)
                   \<lparr>gen_rid := Suc (rs_last (server (update_height_maps s))), gen_dirty := False\<rparr>
            else \<lparr>gen_rid = RID_null, gen_image = None, gen_dirty = True\<rparr>)
      else generated_control_maps s)"
  by (simp add: update_defs Let_def split_beta create_defs Generated_clear_def)

lemma update_regions_control_settled:
  "is_dirty (generated_control_maps (update_regions s)) \<Longrightarrow>
   control_maps s = [] \<and>
   generated_control_maps (update_regions s) =
     \<lparr>gen_rid = RID_null, gen_image = None, gen_dirty = True\<rparr>"
  by (simp add: update_regions_control is_dirty_def split: if_splits)

lemma update_regions_region_map_settled:
  "\<not> is_dirty (generated_region_map (update_regions s))"
  using update_regions_region_map_clean [of s] update_regions_region_map_dirty [of s]
  by (cases "is_dirty (generated_region_map s)") (simp_all add: is_dirty_def)

lemma clear_rs_last [simp]:
  "rs_last (server (clear_height_maps s)) = rs_last (server s)"
  "rs_last (server (clear_control_maps s)) = rs_last (server s)"
  "rs_last (server (clear_region_map s)) = rs_last (server s)"
  by (simp_all add: clear_defs free_rid_def)

lemma update_regions_all_dirty:
  assumes h: "generated_height_maps t = \<lparr>gen_rid = RID_null, gen_image = None, gen_dirty = True\<rparr>"
    and c: "generated_control_maps t = \<lparr>gen_rid = RID_null, gen_image = None, gen_dirty = True\<rparr>"
    and r: "generated_region_map t = \<lparr>gen_rid = RID_null, gen_image = None, gen_dirty = True\<rparr>"
    and hm: "height_maps t \<noteq> []" and cm: "control_maps t \<noteq> []"
    and n: "rs_last (server t) = n"
  shows "generated_height_maps (update_regions t) =
           \<lparr>gen_rid = Suc n, gen_image = None, gen_dirty = False\<rparr>"
    and "generated_control_maps (update_regions t) =
           \<lparr>gen_rid = Suc (Suc n), gen_image = None, gen_dirty = False\<rparr>"
    and "generated_region_map (update_regions t) =
           \<lparr>gen_rid = Suc (Suc (Suc n)),
            gen_image = Some (encode_regions
                        (Image_fill (Image_create region_map_size region_map_size FORMAT_RG8)
                           (mk_Color 0 0 0 1))
                        (region_offsets t) 0),
            gen_dirty = False\<rparr>"
    and "rs_textures (server (update_regions t)) (Suc n) =
           Some (Texture2DLayered (height_maps t))"
    and "rs_textures (server (update_regions t)) (Suc (Suc n)) =
           Some (Texture2DLayered (control_maps t))"
    and "rs_textures (server (update_regions t)) (Suc (Suc (Suc n))) =
           Some (Texture2D (Some (encode_regions
                        (Image_fill (Image_create region_map_size region_map_size FORMAT_RG8)
                           (mk_Color 0 0 0 1))
                        (region_offsets t) 0)))"
  using hm cm n
  by (simp_all add: update_defs h c r Let_def create_defs is_dirty_def material_set_param_def)

lemma add_region_caches:
  assumes "\<not> has_region s p"
  shows "generated_height_maps (state_after s (add_region s p)) =
           \<lparr>gen_rid = Suc (rs_last (server s)), gen_image = None, gen_dirty = False\<rparr>"
    and "generated_control_maps (state_after s (add_region s p)) =
           \<lparr>gen_rid = Suc (Suc (rs_last (server s))), gen_image = None, gen_dirty = False\<rparr>"
    and "generated_region_map (state_after s (add_region s p)) =
           \<lparr>gen_rid = Suc (Suc (Suc (rs_last (server s)))),
            gen_image = Some (encode_regions
                        (Image_fill (Image_create region_map_size region_map_size FORMAT_RG8)
                           (mk_Color 0 0 0 1))
                        (region_offsets s @ [get_offset_from s p]) 0),
            gen_dirty = False\<rparr>"
    and "rs_textures (server (state_after s (add_region s p))) (Suc (rs_last (server s))) =
           Some (Texture2DLayered (height_maps (state_after s (add_region s p))))"
    and "rs_textures (server (state_after s (add_region s p))) (Suc (Suc (rs_last (server s)))) =
           Some (Texture2DLayered (control_maps (state_after s (add_region s p))))"
    and "rs_textures (server (state_after s (add_region s p)))
           (Suc (Suc (Suc (rs_last (server s))))) =
           Some (Texture2D (gen_image (generated_region_map (state_after s (add_region s p)))))"
  using assms
  by (simp_all add: add_region_def state_after_def Let_def update_regions_all_dirty)

lemma add_region_offset_from:
  "get_offset_from (state_after s (add_region s p)) q = get_offset_from s q"
  by (simp add: get_offset_from_def add_region_lists)

lemma add_region_index:
  assumes "\<not> has_region s p"
  shows "get_region_index (state_after s (add_region s p)) p = get_region_count s"
proof -
  from assms have "get_offset_from s p \<notin> set (region_offsets s)"
    using find_offset_missing [of 0 "region_offsets s" "get_offset_from s p"]
    by (simp add: has_region_def get_region_index_def)
  then show ?thesis
    using assms
    by (simp add: get_region_index_def add_region_offset_from add_region_lists
        find_offset_append_new get_region_count_def)
qed

lemma add_region_rs_last:
  "\<not> has_region s p \<Longrightarrow>
   rs_last (server (state_after s (add_region s p))) = Suc (Suc (Suc (rs_last (server s))))"
  by (simp add: add_region_def state_after_def Let_def update_defs create_defs is_dirty_def
      material_set_param_def split_beta clear_height_maps_frame clear_control_maps_frame
      clear_region_map_frame)

lemma one_region_caches:
  "generated_height_maps one_region = \<lparr>gen_rid = 3, gen_image = None, gen_dirty = False\<rparr>"
  "generated_control_maps one_region = \<lparr>gen_rid = 4, gen_image = None, gen_dirty = False\<rparr>"
  "generated_region_map one_region =
     \<lparr>gen_rid = 5,
      gen_image = Some (encode_regions
                  (Image_fill (Image_create region_map_size region_map_size FORMAT_RG8)
                     (mk_Color 0 0 0 1))
                  [(0, 0)] 0),
      gen_dirty = False\<rparr>"
  "rs_last (server one_region) = 5"
proof -
  have n: "rs_last (server new_storage) = 2" by (simp add: new_storage_def)
  have o: "region_offsets new_storage = []" by (simp add: new_storage_def)
  have z: "get_offset_from new_storage (world_pos 0 0 0) = (0, 0)"
    by (simp add: get_offset_from_def world_pos_def)
  note C = add_region_caches [OF new_storage_fresh, of "world_pos 0 0 0", folded one_region_def]
  show "generated_height_maps one_region = \<lparr>gen_rid = 3, gen_image = None, gen_dirty = False\<rparr>"
    using C(1) by (simp add: n)
  show "generated_control_maps one_region = \<lparr>gen_rid = 4, gen_image = None, gen_dirty = False\<rparr>"
    using C(2) by (simp add: n)
  show "generated_region_map one_region =
     \<lparr>gen_rid = 5,
      gen_image = Some (encode_regions
                  (Image_fill (Image_create region_map_size region_map_size FORMAT_RG8)
                     (mk_Color 0 0 0 1))
                  [(0, 0)] 0),
      gen_dirty = False\<rparr>"
    using C(3) by (simp add: n o z)
  show "rs_last (server one_region) = 5"
    using add_region_rs_last [OF new_storage_fresh, of "world_pos 0 0 0", folded one_region_def]
    by (simp add: n)
qed

lemma one_region_maps_nonempty: "height_maps one_region \<noteq> []" "control_maps one_region \<noteq> []"
  using sample_maps_length(1,2) by auto

lemma clear_textures_frame [simp]:
  "layers (clear_albedo_textures s) = layers s"
  "layers (clear_normal_textures s) = layers s"
  "region_offsets (clear_albedo_textures s) = region_offsets s"
  "region_offsets (clear_normal_textures s) = region_offsets s"
  by (simp_all add: clear_defs)

lemma connect_layers_map:
  "None \<notin> set ls \<Longrightarrow> connect_layers ls = Inr (map (map_option connect_layer) ls)"
proof (induction ls rule: connect_layers.induct)
  case 1
  then show ?case by simp
next
  case (2 rest)
  then show ?case by simp
next
  case (3 l rest)
  then have "connect_layers rest = Inr (map (map_option connect_layer) rest)" by simp
  then show ?case by simp
qed

lemma connected_no_null:
  "None \<notin> set ls \<Longrightarrow> None \<notin> set (map (map_option connect_layer) ls)"
  by (induction ls) auto

lemma connect_layers_ok:
  "None \<notin> set ls \<Longrightarrow>
   \<exists>ls'. connect_layers ls = Inr ls' \<and> length ls' = length ls \<and> None \<notin> set ls' \<and>
         ls' = map (map_option connect_layer) ls"
  using connect_layers_map [of ls] connected_no_null [of ls] by simp

lemma layer_values_ok: "None \<notin> set ls \<Longrightarrow> \<exists>v. layer_values ls = Inr v"
  by (induction ls rule: layer_values.induct) (auto split: sum.splits)

lemma layer_textures_ok:
  "None \<notin> set ls \<Longrightarrow> \<exists>arr. layer_textures tex ls = Inr arr"
  by (induction tex ls rule: layer_textures.induct) (auto split: sum.splits)

lemma update_textures_ok:
  assumes "None \<notin> set (layers s)"
  shows "\<exists>s'. update_textures s = Inr s' \<and> layers s' = layers s"
proof -
  from assms obtain a where a: "layer_textures lm_albedo_texture (layers s) = Inr a"
    using layer_textures_ok by blast
  from assms obtain n where n: "layer_textures lm_normal_texture (layers s) = Inr n"
    using layer_textures_ok by blast
  from a obtain s1 where s1: "update_albedo_textures s = Inr s1" "layers s1 = layers s"
    by (cases "is_dirty (generated_albedo_textures s)")
       (simp_all add: update_albedo_textures_def split_beta)
  from n s1 obtain s2 where "update_normal_textures s1 = Inr s2" "layers s2 = layers s1"
    by (cases "is_dirty (generated_normal_textures s1)")
       (simp_all add: update_normal_textures_def split_beta)
  with s1 show ?thesis by (simp add: update_textures_def)
qed

lemma update_layers_ok:
  assumes "None \<notin> set (layers s)"
  shows "\<exists>s'. update_layers s = Inr s' \<and> length (layers s') = length (layers s) \<and>
              None \<notin> set (layers s') \<and>
              layers s' = map (map_option connect_layer) (layers s)"
proof -
  from assms obtain ls where ls: "connect_layers (layers s) = Inr ls"
    "length ls = length (layers s)" "None \<notin> set ls"
    "ls = map (map_option connect_layer) (layers s)"
    using connect_layers_ok by blast
  from ls(3) obtain v where v: "layer_values ls = Inr v"
    using layer_values_ok by blast
  then have ua: "update_arrays (s\<lparr>layers := ls\<rparr>) = Inr (emit_changed (s\<lparr>layers := ls\<rparr>))"
    by (cases v) (simp add: update_arrays_def)
  have "None \<notin> set (layers (emit_changed (s\<lparr>layers := ls\<rparr>)))"
    using ls(3) by simp
  then obtain s' where s': "update_textures (emit_changed (s\<lparr>layers := ls\<rparr>)) = Inr s'"
    "layers s' = layers (emit_changed (s\<lparr>layers := ls\<rparr>))"
    using update_textures_ok by blast
  with ls ua show ?thesis by (simp add: update_layers_def)
qed

lemma set_layers_ok:
  assumes "None \<notin> set ls"
  shows "\<not> isl (set_layers s ls) \<and>
         length (layers (state_after s (set_layers s ls))) = length ls \<and>
         None \<notin> set (layers (state_after s (set_layers s ls)))"
proof -
  let ?t = "clear_normal_textures (clear_albedo_textures (s\<lparr>layers := ls\<rparr>))"
  have "None \<notin> set (layers ?t)" using assms by simp
  from update_layers_ok [OF this] obtain s' where "update_layers ?t = Inr s'"
    "length (layers s') = length (layers ?t)" "None \<notin> set (layers s')" by blast
  then show ?thesis by (simp add: set_layers_def state_after_def)
qed

lemma set_layer_append:
  assumes full: "None \<notin> set (layers s)" and idx: "get_layer_count s \<le> i"
  shows "\<not> isl (set_layer s (Some m) i) \<and>
         get_layer_count (state_after s (set_layer s (Some m) i)) = get_layer_count s + 1 \<and>
         layers (state_after s (set_layer s (Some m) i)) =
           map (map_option connect_layer) (layers s) @ [Some (connect_layer m)]"
proof -
  let ?t = "clear_normal_textures (clear_albedo_textures (s\<lparr>layers := layers s @ [Some m]\<rparr>))"
  have "None \<notin> set (layers ?t)" using full by simp
  from update_layers_ok [OF this] obtain s' where "update_layers ?t = Inr s'"
    "length (layers s') = length (layers ?t)"
    "layers s' = map (map_option connect_layer) (layers ?t)" by blast
  with idx show ?thesis
    by (simp add: set_layer_def state_after_def get_layer_count_def)
qed

lemma force_update_maps_frame [simp]:
  "region_offsets (force_update_maps s t) = region_offsets s"
  "height_maps (force_update_maps s t) = height_maps s"
  "control_maps (force_update_maps s t) = control_maps s"
  "region_size (force_update_maps s t) = region_size s"
  "layers (force_update_maps s t) = layers s"
  by (simp_all add: force_update_maps_def)

lemma crowded_storage_lists:
  "region_offsets crowded_storage = grid_offsets 255"
  "region_size crowded_storage = 1024"
  "layers crowded_storage = []"
  by (simp_all add: crowded_storage_def set_region_offsets_def set_control_maps_def
      set_height_maps_def sample_region_size)
     (simp add: new_storage_def)

lemma grid_offsets_last: "(7, 7) \<notin> set (grid_offsets 255)"
proof
  assume "(7, 7) \<in> set (grid_offsets 255)"
  then obtain k where k: "k < 255" "int (k mod 16) - 8 = 7" "int (k div 16) - 8 = 7"
    by (auto simp add: grid_offsets_def)
  then have "k mod 16 = 15" "k div 16 = 15" by linarith+
  then have "k = 255" by presburger
  with k show False by simp
qed

lemma crowded_storage_fresh: "\<not> has_region crowded_storage (world_pos 7168 0 7168)"
  using find_offset_missing [of 0 "grid_offsets 255" "(7, 7)"] grid_offsets_last
  by (simp add: has_region_def get_region_index_def get_offset_from_def crowded_storage_lists
      world_pos_def)

lemma crowded_storage_count: "get_region_count crowded_storage = 255"
  by (simp add: get_region_count_def crowded_storage_lists grid_offsets_def)

lemma layered_storage_layers:
  "get_layer_count layered_storage = 256" "None \<notin> set (layers layered_storage)"
  using set_layers_ok [of "replicate 256 (Some plain_layer)" new_storage]
  by (simp_all add: layered_storage_def get_layer_count_def)

lemma one_region_has_origin: "has_region one_region (world_pos 0 0 0)"
  by (simp add: index_defs one_region_offsets sample_region_size world_pos_def)

lemma update_layers_region_size:
  "update_layers s = Inr s' \<Longrightarrow> region_size s' = region_size s"
  by (auto simp add: update_layers_def update_arrays_def update_textures_def
      update_albedo_textures_def update_normal_textures_def emit_changed_def split_beta
      split: sum.splits if_splits prod.splits)

lemma layered_storage_region_size: "region_size layered_storage = 1024"
proof (cases "set_layers new_storage (replicate 256 (Some plain_layer))")
  case (Inl e)
  then show ?thesis
    by (simp add: layered_storage_def state_after_def sample_region_size)
next
  case (Inr s')
  then have "region_size s' =
      region_size (clear_normal_textures (clear_albedo_textures
        (new_storage\<lparr>layers := replicate 256 (Some plain_layer)\<rparr>)))"
    by (simp add: set_layers_def update_layers_region_size)
  with Inr show ?thesis
    by (simp add: layered_storage_def state_after_def clear_defs sample_region_size)
qed

lemma blank_region_map:
  "Image_fill (Image_create region_map_size region_map_size FORMAT_RG8) (mk_Color 0 0 0 1) =
     \<lparr>img_width = 16, img_height = 16, img_format = FORMAT_RG8,
      img_data = replicate 256 [0, 0]\<rparr>"
  by (simp add: Image_fill_def Image_create_def region_map_size_def mk_Color_def)

lemma single_region_map:
  "encode_regions
     (Image_fill (Image_create region_map_size region_map_size FORMAT_RG8) (mk_Color 0 0 0 1))
     [(0, 0)] 0 =
   \<lparr>img_width = 16, img_height = 16, img_format = FORMAT_RG8,
    img_data = (replicate 256 [0, 0])[136 := [1 / 255, 1]]\<rparr>"
  by (simp only: encode_regions.simps blank_region_map)
     (simp add: Image_set_pixelv_def Vector2i_add_def Vector2i_div_def region_map_size_def
       mk_Color_def)

lemma cell_index:
  assumes "0 \<le> x" "x < 16" "0 \<le> y" "y < 16"
  shows "nat (y * 16 + x) < 256" and "(x, y) \<noteq> (8, 8) \<Longrightarrow> nat (y * 16 + x) \<noteq> 136"
proof -
  from assms show "nat (y * 16 + x) < 256" by simp
  assume "(x, y) \<noteq> (8, 8)"
  then have "x \<noteq> 8 \<or> y \<noteq> 8" by simp
  with assms have "y * 16 + x \<noteq> 136" by presburger
  with assms show "nat (y * 16 + x) \<noteq> 136" by simp
qed

section \<open>Properties\<close>

text \<open>C1, as the code has it. Neither \<^verbatim>\<open>add_region\<close> nor \<^verbatim>\<open>set_layer\<close> checks a
  capacity. \<^verbatim>\<open>add_region\<close> is reported and rejected, the state unchanged, exactly when
  a region already exists at the grid offset of the position; at a free offset it
  succeeds whatever the region count: the offset list is the old one with the new offset
  at its end, and the count grows by one. \<^verbatim>\<open>set_layer\<close> with a material and an index
  at or beyond the layer count appends whatever the layer count (the stored layers being
  non-null): the layer list is the old one, each layer connected by \<^verbatim>\<open>_update_layers\<close>,
  with the new material (connected likewise) at its end, so that \<^verbatim>\<open>get_layer\<close> finds
  the new material at the old count and every earlier layer at its old index; the
  count grows by one.\<close>

theorem add_region_no_capacity_check:
  assumes size: "SIZE_64 \<le> region_size s \<and> region_size s \<le> SIZE_2048"
  shows "(has_region s p \<longrightarrow>
            isl (add_region s p) \<and> state_after s (add_region s p) = s) \<and>
         (\<not> has_region s p \<longrightarrow>
            \<not> isl (add_region s p) \<and>
            get_region_count (state_after s (add_region s p)) = get_region_count s + 1 \<and>
            region_offsets (state_after s (add_region s p)) =
              region_offsets s @ [get_offset_from s p]) \<and>
         (None \<notin> set (layers s) \<and> get_layer_count s \<le> i \<longrightarrow>
            \<not> isl (set_layer s (Some m) i) \<and>
            get_layer_count (state_after s (set_layer s (Some m) i)) = get_layer_count s + 1 \<and>
            layers (state_after s (set_layer s (Some m) i)) =
              map (map_option connect_layer) (layers s) @ [Some (connect_layer m)] \<and>
            get_layer (state_after s (set_layer s (Some m) i)) (get_layer_count s) =
              Inr (Some (connect_layer m)) \<and>
            (\<forall>j. 0 \<le> j \<and> j < get_layer_count s \<longrightarrow>
               get_layer (state_after s (set_layer s (Some m) i)) j =
                 Inr (map_option connect_layer (layers s ! nat j))))"
proof -
  have dup: "has_region s p \<longrightarrow> isl (add_region s p) \<and> state_after s (add_region s p) = s"
    by (simp add: add_region_def state_after_def)
  have new: "\<not> has_region s p \<longrightarrow>
      \<not> isl (add_region s p) \<and>
      get_region_count (state_after s (add_region s p)) = get_region_count s + 1 \<and>
      region_offsets (state_after s (add_region s p)) =
        region_offsets s @ [get_offset_from s p]"
    by (simp add: add_region_lists get_region_count_def)
  have lay: "None \<notin> set (layers s) \<and> get_layer_count s \<le> i \<longrightarrow>
      \<not> isl (set_layer s (Some m) i) \<and>
      get_layer_count (state_after s (set_layer s (Some m) i)) = get_layer_count s + 1 \<and>
      layers (state_after s (set_layer s (Some m) i)) =
        map (map_option connect_layer) (layers s) @ [Some (connect_layer m)] \<and>
      get_layer (state_after s (set_layer s (Some m) i)) (get_layer_count s) =
        Inr (Some (connect_layer m)) \<and>
      (\<forall>j. 0 \<le> j \<and> j < get_layer_count s \<longrightarrow>
         get_layer (state_after s (set_layer s (Some m) i)) j =
           Inr (map_option connect_layer (layers s ! nat j)))"
  proof (intro impI)
    assume a: "None \<notin> set (layers s) \<and> get_layer_count s \<le> i"
    let ?s' = "state_after s (set_layer s (Some m) i)"
    from a set_layer_append [of s i m]
    have ok: "\<not> isl (set_layer s (Some m) i)"
      and cnt: "get_layer_count ?s' = get_layer_count s + 1"
      and ls: "layers ?s' = map (map_option connect_layer) (layers s) @ [Some (connect_layer m)]"
      by blast+
    have last: "get_layer ?s' (get_layer_count s) = Inr (Some (connect_layer m))"
      by (simp add: get_layer_def Array_get_def get_layer_count_def ls nth_append)
    have earlier: "\<forall>j. 0 \<le> j \<and> j < get_layer_count s \<longrightarrow>
        get_layer ?s' j = Inr (map_option connect_layer (layers s ! nat j))"
    proof (intro allI impI)
      fix j :: int
      assume "0 \<le> j \<and> j < get_layer_count s"
      then have j: "0 \<le> j" "nat j < length (layers s)"
        unfolding get_layer_count_def by linarith+
      then show "get_layer ?s' j = Inr (map_option connect_layer (layers s ! nat j))"
        by (simp add: get_layer_def Array_get_def ls nth_append)
    qed
    from ok cnt ls last earlier
    show "\<not> isl (set_layer s (Some m) i) \<and>
      get_layer_count ?s' = get_layer_count s + 1 \<and>
      layers ?s' = map (map_option connect_layer) (layers s) @ [Some (connect_layer m)] \<and>
      get_layer ?s' (get_layer_count s) = Inr (Some (connect_layer m)) \<and>
      (\<forall>j. 0 \<le> j \<and> j < get_layer_count s \<longrightarrow>
         get_layer ?s' j = Inr (map_option connect_layer (layers s ! nat j)))"
      by blast
  qed
  from dup new lay show ?thesis by blast
qed

theorem add_region_no_capacity_check_witness:
  "(SIZE_64 \<le> region_size crowded_storage \<and> region_size crowded_storage \<le> SIZE_2048) \<and>
   get_region_count crowded_storage = 255 \<and>
   \<not> has_region crowded_storage (world_pos 7168 0 7168) \<and>
   \<not> isl (add_region crowded_storage (world_pos 7168 0 7168)) \<and>
   get_region_count
     (state_after crowded_storage (add_region crowded_storage (world_pos 7168 0 7168))) = 256 \<and>
   region_offsets
     (state_after crowded_storage (add_region crowded_storage (world_pos 7168 0 7168))) =
     grid_offsets 255 @ [(7, 7)] \<and>
   (SIZE_64 \<le> region_size one_region \<and> region_size one_region \<le> SIZE_2048) \<and>
   has_region one_region (world_pos 0 0 0) \<and>
   isl (add_region one_region (world_pos 0 0 0)) \<and>
   state_after one_region (add_region one_region (world_pos 0 0 0)) = one_region \<and>
   (SIZE_64 \<le> region_size layered_storage \<and> region_size layered_storage \<le> SIZE_2048) \<and>
   None \<notin> set (layers layered_storage) \<and>
   get_layer_count layered_storage \<le> 256 \<and>
   \<not> isl (set_layer layered_storage (Some plain_layer) 256) \<and>
   get_layer_count (state_after layered_storage (set_layer layered_storage (Some plain_layer) 256)) =
     257 \<and>
   get_layer (state_after layered_storage (set_layer layered_storage (Some plain_layer) 256)) 256 =
     Inr (Some (connect_layer plain_layer)) \<and>
   get_layer (state_after layered_storage (set_layer layered_storage (Some plain_layer) 256)) 0 =
     Inr (map_option connect_layer (layers layered_storage ! 0))"
proof -
  have s1: "SIZE_64 \<le> region_size crowded_storage \<and> region_size crowded_storage \<le> SIZE_2048"
    by (simp add: crowded_storage_lists size_defs)
  have s2: "SIZE_64 \<le> region_size one_region \<and> region_size one_region \<le> SIZE_2048"
    by (simp add: sample_region_size size_defs)
  have s3: "SIZE_64 \<le> region_size layered_storage \<and> region_size layered_storage \<le> SIZE_2048"
    by (simp add: layered_storage_region_size size_defs)
  have ofs: "get_offset_from crowded_storage (world_pos 7168 0 7168) = (7, 7)"
    by (simp add: get_offset_from_def crowded_storage_lists world_pos_def)
  note T3 = add_region_no_capacity_check [OF s3, of "world_pos 0 0 0" 256 plain_layer]
  from T3 have earlier: "\<forall>j. 0 \<le> j \<and> j < get_layer_count layered_storage \<longrightarrow>
      get_layer (state_after layered_storage (set_layer layered_storage (Some plain_layer) 256)) j =
        Inr (map_option connect_layer (layers layered_storage ! nat j))"
    by (simp add: layered_storage_layers)
  from earlier [rule_format, of 0]
  have first: "get_layer
      (state_after layered_storage (set_layer layered_storage (Some plain_layer) 256)) 0 =
      Inr (map_option connect_layer (layers layered_storage ! 0))"
    by (simp add: layered_storage_layers)
  from add_region_no_capacity_check [OF s1, of "world_pos 7168 0 7168" 0 plain_layer]
    add_region_no_capacity_check [OF s2, of "world_pos 0 0 0" 0 plain_layer]
    T3 s1 s2 s3 first
  show ?thesis
    by (simp add: crowded_storage_fresh crowded_storage_count one_region_has_origin
        layered_storage_layers ofs crowded_storage_lists)
qed

text \<open>C1 as stated fails: with 255 regions in place a 256th is added without a report,
  and with 256 layers in place a 257th is appended without a report.\<close>

theorem add_region_capacity_counterexample:
  "get_region_count crowded_storage = 255 \<and>
   \<not> isl (add_region crowded_storage (world_pos 7168 0 7168)) \<and>
   get_region_count
     (state_after crowded_storage (add_region crowded_storage (world_pos 7168 0 7168))) = 256 \<and>
   get_layer_count layered_storage = 256 \<and>
   \<not> isl (set_layer layered_storage (Some plain_layer) 256) \<and>
   get_layer_count (state_after layered_storage (set_layer layered_storage (Some plain_layer) 256)) =
     257"
  using set_layer_append [of layered_storage 256 plain_layer]
  by (simp add: crowded_storage_count add_region_lists crowded_storage_fresh
      get_region_count_def [of "state_after crowded_storage
        (add_region crowded_storage (world_pos 7168 0 7168))"]
      crowded_storage_lists grid_offsets_def layered_storage_layers)

text \<open>C2, as the code has it. \<^verbatim>\<open>remove_region\<close> uses \<^verbatim>\<open>remove_at\<close>, which shifts:
  removing the region found at index \<open>i < n - 1\<close> of \<open>n\<close> regions (offsets, height
  maps and control maps in lockstep) succeeds and leaves \<open>n - 1\<close> regions; every
  region before \<open>i\<close> keeps its index, and every region formerly at \<open>j + 1\<close>, for
  \<open>i \<le> j\<close>, now sits at \<open>j\<close>. So index \<open>i\<close> holds the former \<open>i + 1\<close>, the former
  last region sits at \<open>n - 2\<close>, and the order is kept.\<close>

theorem remove_region_compaction:
  assumes size: "SIZE_64 \<le> region_size s \<and> region_size s \<le> SIZE_2048"
    and lockstep: "length (height_maps s) = length (region_offsets s) \<and>
                   length (control_maps s) = length (region_offsets s)"
    and idx: "get_region_index s p = i" and lo: "0 \<le> i"
    and hi: "i < get_region_count s - 1"
  shows "\<not> isl (remove_region s p) \<and>
     get_region_count (state_after s (remove_region s p)) = get_region_count s - 1 \<and>
     int (length (height_maps (state_after s (remove_region s p)))) = get_region_count s - 1 \<and>
     int (length (control_maps (state_after s (remove_region s p)))) = get_region_count s - 1 \<and>
     (\<forall>j. 0 \<le> j \<and> j < i \<longrightarrow>
        region_offsets (state_after s (remove_region s p)) ! nat j = region_offsets s ! nat j \<and>
        height_maps (state_after s (remove_region s p)) ! nat j = height_maps s ! nat j \<and>
        control_maps (state_after s (remove_region s p)) ! nat j = control_maps s ! nat j) \<and>
     (\<forall>j. i \<le> j \<and> j < get_region_count s - 1 \<longrightarrow>
        region_offsets (state_after s (remove_region s p)) ! nat j =
          region_offsets s ! nat (j + 1) \<and>
        height_maps (state_after s (remove_region s p)) ! nat j = height_maps s ! nat (j + 1) \<and>
        control_maps (state_after s (remove_region s p)) ! nat j =
          control_maps s ! nat (j + 1))"
proof -
  let ?s' = "state_after s (remove_region s p)"
  from lo hi have n1: "get_region_count s \<noteq> 1" by simp
  from lo idx have found: "get_region_index s p \<noteq> - 1" by simp
  from n1 found idx have ok: "\<not> isl (remove_region s p)"
    by (simp add: remove_region_def Let_def)
  from n1 found idx have offs: "region_offsets ?s' = Array_remove_at (region_offsets s) i"
    by (simp add: remove_region_def state_after_def Let_def)
  from n1 found idx have hm: "height_maps ?s' = Array_remove_at (height_maps s) i"
    by (simp add: remove_region_def state_after_def Let_def)
  from n1 found idx have cm: "control_maps ?s' = Array_remove_at (control_maps s) i"
    by (simp add: remove_region_def state_after_def Let_def)
  from hi have r: "i < int (length (region_offsets s))"
    by (simp add: get_region_count_def)
  from r lockstep have rh: "i < int (length (height_maps s))"
    and rc: "i < int (length (control_maps s))" by simp_all
  from hi lo have pos: "0 < length (region_offsets s)"
    by (cases "region_offsets s") (simp_all add: get_region_count_def)
  from lo r pos have cnt: "get_region_count ?s' = get_region_count s - 1"
    by (simp add: get_region_count_def offs Array_remove_at_length of_nat_diff)
  from lo rh pos lockstep
  have lh: "int (length (height_maps ?s')) = get_region_count s - 1"
    by (simp add: get_region_count_def hm Array_remove_at_length of_nat_diff)
  from lo rc pos lockstep
  have lc: "int (length (control_maps ?s')) = get_region_count s - 1"
    by (simp add: get_region_count_def cm Array_remove_at_length of_nat_diff)
  have before: "\<forall>j. 0 \<le> j \<and> j < i \<longrightarrow>
      region_offsets ?s' ! nat j = region_offsets s ! nat j \<and>
      height_maps ?s' ! nat j = height_maps s ! nat j \<and>
      control_maps ?s' ! nat j = control_maps s ! nat j"
    using lo r rh rc by (simp add: offs hm cm Array_remove_at_before)
  have after: "\<forall>j. i \<le> j \<and> j < get_region_count s - 1 \<longrightarrow>
      region_offsets ?s' ! nat j = region_offsets s ! nat (j + 1) \<and>
      height_maps ?s' ! nat j = height_maps s ! nat (j + 1) \<and>
      control_maps ?s' ! nat j = control_maps s ! nat (j + 1)"
    using lo r rh rc lockstep
    by (simp add: offs hm cm get_region_count_def Array_remove_at_after)
  from ok cnt lh lc before after show ?thesis by blast
qed

theorem remove_region_compaction_witness:
  "(SIZE_64 \<le> region_size three_regions \<and> region_size three_regions \<le> SIZE_2048) \<and>
   (length (height_maps three_regions) = length (region_offsets three_regions) \<and>
    length (control_maps three_regions) = length (region_offsets three_regions)) \<and>
   get_region_index three_regions (world_pos 0 0 0) = 0 \<and>
   (0 :: int) < get_region_count three_regions - 1 \<and>
   \<not> isl (remove_region three_regions (world_pos 0 0 0)) \<and>
   get_region_count (state_after three_regions (remove_region three_regions (world_pos 0 0 0))) = 2 \<and>
   region_offsets (state_after three_regions (remove_region three_regions (world_pos 0 0 0))) ! 0 =
     region_offsets three_regions ! 1 \<and>
   region_offsets (state_after three_regions (remove_region three_regions (world_pos 0 0 0))) ! 1 =
     region_offsets three_regions ! 2 \<and>
   height_maps (state_after three_regions (remove_region three_regions (world_pos 0 0 0))) ! 1 =
     height_maps three_regions ! 2"
proof -
  let ?p = "world_pos 0 0 0"
  have size: "SIZE_64 \<le> region_size three_regions \<and> region_size three_regions \<le> SIZE_2048"
    by (simp add: sample_region_size size_defs)
  have lockstep: "length (height_maps three_regions) = length (region_offsets three_regions) \<and>
      length (control_maps three_regions) = length (region_offsets three_regions)"
    by (simp add: sample_maps_length three_regions_offsets)
  have idx: "get_region_index three_regions ?p = 0"
    by (simp add: index_defs three_regions_offsets sample_region_size world_pos_def)
  have hi: "(0 :: int) < get_region_count three_regions - 1"
    by (simp add: get_region_count_def three_regions_offsets)
  note T = remove_region_compaction [OF size lockstep idx order_refl hi]
  from T have shift: "\<forall>j. 0 \<le> j \<and> j < get_region_count three_regions - 1 \<longrightarrow>
      region_offsets (state_after three_regions (remove_region three_regions ?p)) ! nat j =
        region_offsets three_regions ! nat (j + 1) \<and>
      height_maps (state_after three_regions (remove_region three_regions ?p)) ! nat j =
        height_maps three_regions ! nat (j + 1) \<and>
      control_maps (state_after three_regions (remove_region three_regions ?p)) ! nat j =
        control_maps three_regions ! nat (j + 1)"
    by blast
  have n: "get_region_count three_regions = 3"
    by (simp add: get_region_count_def three_regions_offsets)
  from shift [rule_format, of 0] shift [rule_format, of 1] n T size lockstep idx hi
  show ?thesis by (simp add: numeral_2_eq_2)
qed

text \<open>C2 as stated fails: with three regions, removing the one at index 0 puts the
  region formerly at index 1 there, not the one formerly at index 2.\<close>

theorem remove_region_compaction_counterexample:
  "get_region_count three_regions = 3 \<and>
   get_region_index three_regions (world_pos 0 0 0) = 0 \<and>
   region_offsets three_regions ! (3 - 1) = (2, 2) \<and>
   region_offsets (state_after three_regions (remove_region three_regions (world_pos 0 0 0))) ! 0 =
     (1, 1)"
proof -
  have idx: "get_region_index three_regions (world_pos 0 0 0) = 0"
    by (simp add: index_defs three_regions_offsets sample_region_size world_pos_def)
  have n: "get_region_count three_regions = 3"
    by (simp add: get_region_count_def three_regions_offsets)
  have "region_offsets (state_after three_regions (remove_region three_regions (world_pos 0 0 0))) =
      Array_remove_at (region_offsets three_regions) 0"
    using idx n by (simp add: remove_region_def state_after_def Let_def)
  then show ?thesis
    using idx n by (simp add: three_regions_offsets Array_remove_at_def)
qed

text \<open>C3. Take a state whose region size is one the setter admits and a world position
  at whose grid offset no region exists. Then \<^verbatim>\<open>add_region\<close> succeeds; afterwards
  \<^verbatim>\<open>has_region\<close> holds there and \<^verbatim>\<open>get_region_index\<close> gives the new count minus one,
  which is the old count. The height, control and region-map caches have been
  invalidated: the state at return is what the update pass and the two signals make of
  a state \<open>t\<close> that holds the new region and has all three caches dirty. Since the
  call runs that pass itself, each of the three caches carries at return a handle
  issued during the call, for a texture built from the lists that include the new
  region, and is clean again.\<close>

theorem add_region_appends:
  assumes size: "SIZE_64 \<le> region_size s \<and> region_size s \<le> SIZE_2048"
    and free: "\<not> has_region s p"
  shows "\<not> isl (add_region s p) \<and>
     has_region (state_after s (add_region s p)) p \<and>
     get_region_index (state_after s (add_region s p)) p =
       get_region_count (state_after s (add_region s p)) - 1 \<and>
     get_region_count (state_after s (add_region s p)) - 1 = get_region_count s \<and>
     rs_last (server s) < gen_rid (generated_height_maps (state_after s (add_region s p))) \<and>
     rs_last (server s) < gen_rid (generated_control_maps (state_after s (add_region s p))) \<and>
     rs_last (server s) < gen_rid (generated_region_map (state_after s (add_region s p))) \<and>
     rs_textures (server (state_after s (add_region s p)))
         (gen_rid (generated_height_maps (state_after s (add_region s p)))) =
       Some (Texture2DLayered (height_maps (state_after s (add_region s p)))) \<and>
     rs_textures (server (state_after s (add_region s p)))
         (gen_rid (generated_control_maps (state_after s (add_region s p)))) =
       Some (Texture2DLayered (control_maps (state_after s (add_region s p)))) \<and>
     rs_textures (server (state_after s (add_region s p)))
         (gen_rid (generated_region_map (state_after s (add_region s p)))) =
       Some (Texture2D (Some (encode_regions
         (Image_fill (Image_create region_map_size region_map_size FORMAT_RG8) (mk_Color 0 0 0 1))
         (region_offsets (state_after s (add_region s p))) 0))) \<and>
     \<not> is_dirty (generated_height_maps (state_after s (add_region s p))) \<and>
     \<not> is_dirty (generated_control_maps (state_after s (add_region s p))) \<and>
     \<not> is_dirty (generated_region_map (state_after s (add_region s p))) \<and>
     (\<exists>t. is_dirty (generated_height_maps t) \<and> is_dirty (generated_control_maps t) \<and>
          is_dirty (generated_region_map t) \<and>
          region_offsets t = region_offsets s @ [get_offset_from s p] \<and>
          state_after s (add_region s p) =
            emit_changed (notify_property_list_changed (update_regions t)))"
proof -
  let ?s' = "state_after s (add_region s p)"
  let ?t = "clear_region_map (clear_control_maps (clear_height_maps
    (s\<lparr>height_maps := height_maps s @
         [Some (Image_fill (Image_create (region_size s) (region_size s) FORMAT_RH)
                  (mk_Color 0 0 0 1))],
       control_maps := control_maps s @
         [Some (Image_fill (Image_create (region_size s) (region_size s) FORMAT_RGBA8)
                  (mk_Color 0 0 0 1))],
       region_offsets := region_offsets s @ [get_offset_from s p]\<rparr>)))"
  have inv: "is_dirty (generated_height_maps ?t) \<and> is_dirty (generated_control_maps ?t) \<and>
      is_dirty (generated_region_map ?t) \<and>
      region_offsets ?t = region_offsets s @ [get_offset_from s p] \<and>
      ?s' = emit_changed (notify_property_list_changed (update_regions ?t))"
    using free by (simp add: is_dirty_def add_region_def state_after_def Let_def)
  then have via: "\<exists>t. is_dirty (generated_height_maps t) \<and>
      is_dirty (generated_control_maps t) \<and> is_dirty (generated_region_map t) \<and>
      region_offsets t = region_offsets s @ [get_offset_from s p] \<and>
      ?s' = emit_changed (notify_property_list_changed (update_regions t))"
    by (rule exI)
  note caches = add_region_caches [OF free]
  have ok: "\<not> isl (add_region s p)"
    using free by (simp add: add_region_lists)
  have cnt: "get_region_count ?s' - 1 = get_region_count s"
    using free by (simp add: get_region_count_def add_region_lists)
  have idx: "get_region_index ?s' p = get_region_count ?s' - 1"
    using add_region_index [OF free] cnt by simp
  have has: "has_region ?s' p"
    using idx cnt by (simp add: has_region_def get_region_count_def)
  have new: "rs_last (server s) < gen_rid (generated_height_maps ?s')"
    "rs_last (server s) < gen_rid (generated_control_maps ?s')"
    "rs_last (server s) < gen_rid (generated_region_map ?s')"
    by (simp_all add: caches)
  have clean: "\<not> is_dirty (generated_height_maps ?s')"
    "\<not> is_dirty (generated_control_maps ?s')"
    "\<not> is_dirty (generated_region_map ?s')"
    by (simp_all add: caches is_dirty_def)
  have th: "rs_textures (server ?s') (gen_rid (generated_height_maps ?s')) =
      Some (Texture2DLayered (height_maps ?s'))"
    using caches(4) by (simp add: caches(1))
  have tc: "rs_textures (server ?s') (gen_rid (generated_control_maps ?s')) =
      Some (Texture2DLayered (control_maps ?s'))"
    using caches(5) by (simp add: caches(2))
  have tr: "rs_textures (server ?s') (gen_rid (generated_region_map ?s')) =
      Some (Texture2D (Some (encode_regions
        (Image_fill (Image_create region_map_size region_map_size FORMAT_RG8) (mk_Color 0 0 0 1))
        (region_offsets ?s') 0)))"
    using caches(6) free by (simp add: caches(3) add_region_lists)
  from ok has idx cnt new clean th tc tr via show ?thesis by blast
qed

theorem add_region_appends_witness:
  "(SIZE_64 \<le> region_size one_region \<and> region_size one_region \<le> SIZE_2048) \<and>
   \<not> has_region one_region (world_pos 1024 0 1024) \<and>
   \<not> isl (add_region one_region (world_pos 1024 0 1024)) \<and>
   has_region two_regions (world_pos 1024 0 1024) \<and>
   get_region_index two_regions (world_pos 1024 0 1024) = 1 \<and>
   get_region_count two_regions = 2 \<and>
   get_region_count one_region = 1 \<and>
   \<not> is_dirty (generated_height_maps two_regions) \<and>
   \<not> is_dirty (generated_control_maps two_regions) \<and>
   \<not> is_dirty (generated_region_map two_regions)"
proof -
  have size: "SIZE_64 \<le> region_size one_region \<and> region_size one_region \<le> SIZE_2048"
    by (simp add: sample_region_size size_defs)
  note T = add_region_appends [OF size one_region_fresh, folded two_regions_def]
  have n1: "get_region_count one_region = 1"
    by (simp add: get_region_count_def one_region_offsets)
  have n2: "get_region_count two_regions = 2"
    by (simp add: get_region_count_def two_regions_offsets)
  from T size one_region_fresh n1 n2 show ?thesis by simp
qed

text \<open>C4, as the code has it. A second update pass straight after a first one leaves the
  state exactly as the first pass left it: no handle is created or released. After the
  first pass the region-map cache is clean. The height cache is clean too, unless it
  was dirty and the height-map list is empty: \<^verbatim>\<open>create\<close> on an empty list calls
  \<^verbatim>\<open>clear\<close>, which sets the flag again, so the cache stays dirty and the second pass
  enters the same branch, only to clear once more. The same holds for the control
  cache and the control-map list.\<close>

theorem update_regions_twice:
  "update_regions (update_regions s) = update_regions s \<and>
   is_dirty (generated_height_maps (update_regions s)) =
     (is_dirty (generated_height_maps s) \<and> height_maps s = []) \<and>
   is_dirty (generated_control_maps (update_regions s)) =
     (is_dirty (generated_control_maps s) \<and> control_maps s = []) \<and>
   is_dirty (generated_region_map (update_regions s)) = False"
proof -
  let ?t = "update_regions s"
  have h: "is_dirty (generated_height_maps ?t) \<Longrightarrow>
      height_maps ?t = [] \<and>
      generated_height_maps ?t = \<lparr>gen_rid = RID_null, gen_image = None, gen_dirty = True\<rparr>"
    using update_regions_height_settled [of s] by simp
  have c: "is_dirty (generated_control_maps ?t) \<Longrightarrow>
      control_maps ?t = [] \<and>
      generated_control_maps ?t = \<lparr>gen_rid = RID_null, gen_image = None, gen_dirty = True\<rparr>"
    using update_regions_control_settled [of s] by simp
  have r: "\<not> is_dirty (generated_region_map ?t)"
    by (rule update_regions_region_map_settled)
  have fp: "update_regions ?t = ?t"
    using h c r by (rule update_regions_fixpoint) (simp_all add: update_regions_params)
  have dh: "is_dirty (generated_height_maps ?t) =
      (is_dirty (generated_height_maps s) \<and> height_maps s = [])"
    by (simp add: update_regions_height is_dirty_def)
  have dc: "is_dirty (generated_control_maps ?t) =
      (is_dirty (generated_control_maps s) \<and> control_maps s = [])"
    by (simp add: update_regions_control is_dirty_def)
  from fp dh dc r show ?thesis by simp
qed

text \<open>C4 as stated fails on an empty source list. After \<^verbatim>\<open>force_update_maps(TYPE_HEIGHT)\<close>
  on a new storage the height-map list is empty; a pass leaves the height cache dirty,
  and so does the pass after it.\<close>

theorem update_regions_twice_counterexample:
  "height_maps (force_update_maps new_storage TYPE_HEIGHT) = [] \<and>
   is_dirty (generated_height_maps (update_regions (force_update_maps new_storage TYPE_HEIGHT))) \<and>
   is_dirty (generated_height_maps
     (update_regions (update_regions (force_update_maps new_storage TYPE_HEIGHT))))"
  by (simp add: force_update_maps_def type_defs update_regions_height is_dirty_def)
     (simp add: new_storage_def)

text \<open>C5. \<^verbatim>\<open>set_region_offsets\<close> assigns the list and does nothing else: the region-map
  cache is not cleared. With one region at offset \<open>(0, 0)\<close> in place, replacing the offset
  list by \<open>[(1, 0)]\<close> leaves the region-map cache clean, and the update pass that follows
  keeps the image built for the old list.\<close>

theorem set_region_offsets_keeps_region_map:
  "region_offsets (set_region_offsets one_region [(1, 0)]) = [(1, 0)] \<and>
   is_dirty (generated_region_map (set_region_offsets one_region [(1, 0)])) = False \<and>
   generated_region_map (update_regions (set_region_offsets one_region [(1, 0)])) =
     generated_region_map one_region \<and>
   gen_image (generated_region_map one_region) =
     Some (encode_regions
       (Image_fill (Image_create region_map_size region_map_size FORMAT_RG8) (mk_Color 0 0 0 1))
       [(0, 0)] 0)"
proof -
  have g: "generated_region_map (set_region_offsets one_region [(1, 0)]) =
      generated_region_map one_region"
    by (simp add: set_region_offsets_def)
  have d: "\<not> is_dirty (generated_region_map (set_region_offsets one_region [(1, 0)]))"
    by (simp add: g is_dirty_def one_region_caches)
  from update_regions_region_map_clean [OF d] g d show ?thesis
    by (simp add: set_region_offsets_def one_region_caches)
qed

text \<open>C6, as the code has it. \<^verbatim>\<open>force_update_maps(TYPE_HEIGHT)\<close> clears the height
  cache only, and then runs the update pass itself. So at return the height cache is
  dirty only when the height-map list is empty; otherwise it has been rebuilt under a
  fresh handle and is clean. A control or region-map cache that was clean is left as
  it was, and the albedo and normal caches are never touched.\<close>

theorem force_update_maps_height:
  "is_dirty (generated_height_maps (force_update_maps s TYPE_HEIGHT)) = (height_maps s = []) \<and>
   (height_maps s \<noteq> [] \<longrightarrow>
      gen_rid (generated_height_maps (force_update_maps s TYPE_HEIGHT)) =
        Suc (rs_last (server s))) \<and>
   (\<not> is_dirty (generated_control_maps s) \<longrightarrow>
      generated_control_maps (force_update_maps s TYPE_HEIGHT) = generated_control_maps s) \<and>
   (\<not> is_dirty (generated_region_map s) \<longrightarrow>
      generated_region_map (force_update_maps s TYPE_HEIGHT) = generated_region_map s) \<and>
   generated_albedo_textures (force_update_maps s TYPE_HEIGHT) = generated_albedo_textures s \<and>
   generated_normal_textures (force_update_maps s TYPE_HEIGHT) = generated_normal_textures s"
proof -
  have f: "force_update_maps s TYPE_HEIGHT = update_regions (clear_height_maps s)"
    by (simp add: force_update_maps_def)
  have last: "rs_last (server (clear_height_maps s)) = rs_last (server s)"
    by (simp add: clear_height_maps_def Generated_clear_def free_rid_def)
  have 1: "is_dirty (generated_height_maps (force_update_maps s TYPE_HEIGHT)) =
      (height_maps s = [])"
    by (simp add: f update_regions_height is_dirty_def)
  have 2: "height_maps s \<noteq> [] \<longrightarrow>
      gen_rid (generated_height_maps (force_update_maps s TYPE_HEIGHT)) = Suc (rs_last (server s))"
    by (simp add: f update_regions_height is_dirty_def last)
  have 3: "\<not> is_dirty (generated_control_maps s) \<longrightarrow>
      generated_control_maps (force_update_maps s TYPE_HEIGHT) = generated_control_maps s"
    by (simp add: f update_regions_control_clean)
  have 4: "\<not> is_dirty (generated_region_map s) \<longrightarrow>
      generated_region_map (force_update_maps s TYPE_HEIGHT) = generated_region_map s"
    by (simp add: f update_regions_region_map_clean)
  have 5: "generated_albedo_textures (force_update_maps s TYPE_HEIGHT) =
      generated_albedo_textures s"
    by (simp add: f)
  have 6: "generated_normal_textures (force_update_maps s TYPE_HEIGHT) =
      generated_normal_textures s"
    by (simp add: f)
  from 1 2 3 4 5 6 show ?thesis by blast
qed

theorem force_update_maps_height_witness:
  "height_maps one_region \<noteq> [] \<and>
   \<not> is_dirty (generated_control_maps one_region) \<and>
   \<not> is_dirty (generated_region_map one_region) \<and>
   is_dirty (generated_height_maps (force_update_maps one_region TYPE_HEIGHT)) = False \<and>
   gen_rid (generated_height_maps (force_update_maps one_region TYPE_HEIGHT)) = 6 \<and>
   generated_control_maps (force_update_maps one_region TYPE_HEIGHT) =
     generated_control_maps one_region \<and>
   generated_region_map (force_update_maps one_region TYPE_HEIGHT) =
     generated_region_map one_region"
  using force_update_maps_height [of one_region]
  by (simp add: one_region_maps_nonempty one_region_caches is_dirty_def)

text \<open>C6 as stated fails: with one region in place, \<^verbatim>\<open>force_update_maps(TYPE_HEIGHT)\<close>
  returns with the height cache clean, rebuilt under handle 6 in place of handle 3; it
  is not left dirty for a later pass.\<close>

theorem force_update_maps_height_counterexample:
  "gen_rid (generated_height_maps one_region) = 3 \<and>
   is_dirty (generated_height_maps (force_update_maps one_region TYPE_HEIGHT)) = False \<and>
   gen_rid (generated_height_maps (force_update_maps one_region TYPE_HEIGHT)) = 6"
  by (simp add: force_update_maps_def update_regions_height is_dirty_def
      one_region_maps_nonempty one_region_caches)

text \<open>C7. With exactly one region, \<^verbatim>\<open>remove_region\<close> at any world position returns
  without a report and leaves the whole state as it was: the region, offset, height-map
  and control-map lists and every cache.\<close>

theorem remove_region_floor:
  "get_region_count s = 1 \<Longrightarrow> remove_region s p = Inr s"
  by (simp add: remove_region_def)

theorem remove_region_floor_witness:
  "get_region_count one_region = 1 \<and>
   remove_region one_region (world_pos 5000 0 (- 3000)) = Inr one_region"
  using remove_region_floor [of one_region "world_pos 5000 0 (- 3000)"]
  by (simp add: get_region_count_def one_region_offsets)

text \<open>C8. The region map is 16 by 16 (\<^verbatim>\<open>region_map_size\<close>). When the update pass
  rebuilds it from a single region at offset \<open>(0, 0)\<close>, cell \<open>(8, 8)\<close> holds
  \<open>(0 + 1) / 255\<close> in the red channel and the constant weight 1 in the green channel,
  and every other cell holds zero in both channels; when it rebuilds it from an empty
  region list, every cell holds zero in both channels.\<close>

theorem region_map_encoding:
  assumes dirty: "is_dirty (generated_region_map s)"
  shows "(region_offsets s = [(0, 0)] \<longrightarrow>
           (\<exists>img. gen_image (generated_region_map (update_regions s)) = Some img \<and>
              img_width img = region_map_size \<and> img_height img = region_map_size \<and>
              Image_get_pixelv img (8, 8) = [(0 + 1) / 255, 1] \<and>
              (\<forall>x y. 0 \<le> x \<and> x < 16 \<and> 0 \<le> y \<and> y < 16 \<and> (x, y) \<noteq> (8, 8) \<longrightarrow>
                 Image_get_pixelv img (x, y) = [0, 0]))) \<and>
         (region_offsets s = [] \<longrightarrow>
           (\<exists>img. gen_image (generated_region_map (update_regions s)) = Some img \<and>
              img_width img = region_map_size \<and> img_height img = region_map_size \<and>
              (\<forall>x y. 0 \<le> x \<and> x < 16 \<and> 0 \<le> y \<and> y < 16 \<longrightarrow>
                 Image_get_pixelv img (x, y) = [0, 0])))"
proof (intro conjI impI)
  assume one: "region_offsets s = [(0, 0)]"
  let ?img = "\<lparr>img_width = 16, img_height = 16, img_format = FORMAT_RG8,
    img_data = (replicate 256 [0, 0])[136 := [1 / 255, 1 :: real]]\<rparr>"
  have built: "gen_image (generated_region_map (update_regions s)) = Some ?img"
    using update_regions_region_map_dirty [OF dirty] by (simp only: one single_region_map)
  have centre: "Image_get_pixelv ?img (8, 8) = [(0 + 1) / 255, 1]"
    by (simp add: Image_get_pixelv_def)
  have rest: "\<forall>x y. 0 \<le> x \<and> x < 16 \<and> 0 \<le> y \<and> y < 16 \<and> (x, y) \<noteq> (8, 8) \<longrightarrow>
      Image_get_pixelv ?img (x, y) = [0, 0]"
  proof (intro allI impI)
    fix x y :: int
    assume a: "0 \<le> x \<and> x < 16 \<and> 0 \<le> y \<and> y < 16 \<and> (x, y) \<noteq> (8, 8)"
    then have "nat (y * 16 + x) < 256" "nat (y * 16 + x) \<noteq> 136"
      using cell_index [of x y] by auto
    then show "Image_get_pixelv ?img (x, y) = [0, 0]"
      by (simp add: Image_get_pixelv_def)
  qed
  from built centre rest
  show "\<exists>img. gen_image (generated_region_map (update_regions s)) = Some img \<and>
      img_width img = region_map_size \<and> img_height img = region_map_size \<and>
      Image_get_pixelv img (8, 8) = [(0 + 1) / 255, 1] \<and>
      (\<forall>x y. 0 \<le> x \<and> x < 16 \<and> 0 \<le> y \<and> y < 16 \<and> (x, y) \<noteq> (8, 8) \<longrightarrow>
         Image_get_pixelv img (x, y) = [0, 0])"
    by (intro exI [of _ ?img]) (simp add: region_map_size_def)
next
  assume none: "region_offsets s = []"
  let ?img = "\<lparr>img_width = 16, img_height = 16, img_format = FORMAT_RG8,
    img_data = replicate 256 [0, 0 :: real]\<rparr>"
  have built: "gen_image (generated_region_map (update_regions s)) = Some ?img"
    using update_regions_region_map_dirty [OF dirty]
    by (simp only: none encode_regions.simps blank_region_map)
  have rest: "\<forall>x y. 0 \<le> x \<and> x < 16 \<and> 0 \<le> y \<and> y < 16 \<longrightarrow>
      Image_get_pixelv ?img (x, y) = [0, 0]"
  proof (intro allI impI)
    fix x y :: int
    assume a: "0 \<le> x \<and> x < 16 \<and> 0 \<le> y \<and> y < 16"
    then have "nat (y * 16 + x) < 256"
      using cell_index(1) [of x y] by auto
    then show "Image_get_pixelv ?img (x, y) = [0, 0]"
      by (simp add: Image_get_pixelv_def)
  qed
  from built rest
  show "\<exists>img. gen_image (generated_region_map (update_regions s)) = Some img \<and>
      img_width img = region_map_size \<and> img_height img = region_map_size \<and>
      (\<forall>x y. 0 \<le> x \<and> x < 16 \<and> 0 \<le> y \<and> y < 16 \<longrightarrow>
         Image_get_pixelv img (x, y) = [0, 0])"
    by (intro exI [of _ ?img]) (simp add: region_map_size_def)
qed

theorem region_map_encoding_witness:
  "is_dirty (generated_region_map (clear_region_map one_region)) \<and>
   region_offsets (clear_region_map one_region) = [(0, 0)] \<and>
   (\<exists>img. gen_image (generated_region_map (update_regions (clear_region_map one_region))) =
            Some img \<and>
          img_width img = 16 \<and> img_height img = 16 \<and>
          Image_get_pixelv img (8, 8) = [1 / 255, 1] \<and>
          Image_get_pixelv img (7, 8) = [0, 0] \<and>
          Image_get_pixelv img (0, 0) = [0, 0] \<and>
          Image_get_pixelv img (15, 15) = [0, 0]) \<and>
   is_dirty (generated_region_map (clear_region_map new_storage)) \<and>
   region_offsets (clear_region_map new_storage) = [] \<and>
   (\<exists>img. gen_image (generated_region_map (update_regions (clear_region_map new_storage))) =
            Some img \<and>
          img_width img = 16 \<and> img_height img = 16 \<and>
          Image_get_pixelv img (8, 8) = [0, 0] \<and>
          Image_get_pixelv img (0, 0) = [0, 0])"
proof -
  have d1: "is_dirty (generated_region_map (clear_region_map one_region))"
    by (simp add: is_dirty_def)
  have o1: "region_offsets (clear_region_map one_region) = [(0, 0)]"
    by (simp add: one_region_offsets)
  have d0: "is_dirty (generated_region_map (clear_region_map new_storage))"
    by (simp add: is_dirty_def)
  have o0: "region_offsets (clear_region_map new_storage) = []"
    by (simp add: new_storage_def)
  from region_map_encoding [OF d1] o1
  obtain img1 where i1:
    "gen_image (generated_region_map (update_regions (clear_region_map one_region))) = Some img1"
    "img_width img1 = region_map_size" "img_height img1 = region_map_size"
    "Image_get_pixelv img1 (8, 8) = [(0 + 1) / 255, 1]"
    "\<forall>x y. 0 \<le> x \<and> x < 16 \<and> 0 \<le> y \<and> y < 16 \<and> (x, y) \<noteq> (8, 8) \<longrightarrow>
       Image_get_pixelv img1 (x, y) = [0, 0]"
    by blast
  from region_map_encoding [OF d0] o0
  obtain img0 where i0:
    "gen_image (generated_region_map (update_regions (clear_region_map new_storage))) = Some img0"
    "img_width img0 = region_map_size" "img_height img0 = region_map_size"
    "\<forall>x y. 0 \<le> x \<and> x < 16 \<and> 0 \<le> y \<and> y < 16 \<longrightarrow> Image_get_pixelv img0 (x, y) = [0, 0]"
    by blast
  from i1(5) have c1: "Image_get_pixelv img1 (7, 8) = [0, 0]"
    "Image_get_pixelv img1 (0, 0) = [0, 0]" "Image_get_pixelv img1 (15, 15) = [0, 0]"
    by simp_all
  from i0(4) have c0: "Image_get_pixelv img0 (8, 8) = [0, 0]"
    "Image_get_pixelv img0 (0, 0) = [0, 0]"
    by simp_all
  from d1 o1 d0 o0 i1(1-4) c1 i0(1-3) c0 show ?thesis
    by (simp add: region_map_size_def)
qed

text \<open>C9, as the code has it. \<^verbatim>\<open>set_region_size\<close> checks a range, not membership:
  every size below 64 or above 2048 is reported and leaves \<^verbatim>\<open>region_size\<close> as it
  was; every size from 64 to 2048, the six enumerators among them, is accepted and
  becomes the region size.\<close>

theorem set_region_size_range:
  "(p_size < SIZE_64 \<or> SIZE_2048 < p_size \<longrightarrow>
      isl (set_region_size s p_size) \<and>
      region_size (state_after s (set_region_size s p_size)) = region_size s) \<and>
   (SIZE_64 \<le> p_size \<and> p_size \<le> SIZE_2048 \<longrightarrow>
      \<not> isl (set_region_size s p_size) \<and>
      region_size (state_after s (set_region_size s p_size)) = p_size) \<and>
   (p_size \<in> {SIZE_64, SIZE_128, SIZE_256, SIZE_512, SIZE_1024, SIZE_2048} \<longrightarrow>
      \<not> isl (set_region_size s p_size) \<and>
      region_size (state_after s (set_region_size s p_size)) = p_size)"
  by (auto simp add: set_region_size_def state_after_def size_defs Let_def)

theorem set_region_size_range_witness:
  "(63 < SIZE_64 \<or> SIZE_2048 < (63 :: int)) \<and> isl (set_region_size new_storage 63) \<and>
   region_size (state_after new_storage (set_region_size new_storage 63)) =
     region_size new_storage \<and>
   (SIZE_64 \<le> 100 \<and> (100 :: int) \<le> SIZE_2048) \<and>
   \<not> isl (set_region_size new_storage 100) \<and>
   region_size (state_after new_storage (set_region_size new_storage 100)) = 100 \<and>
   256 \<in> {SIZE_64, SIZE_128, SIZE_256, SIZE_512, SIZE_1024, SIZE_2048} \<and>
   \<not> isl (set_region_size new_storage 256) \<and>
   region_size (state_after new_storage (set_region_size new_storage 256)) = 256"
  using set_region_size_range [of 63 new_storage] set_region_size_range [of 100 new_storage]
    set_region_size_range [of 256 new_storage]
  by (simp add: size_defs)

text \<open>C9 as stated fails: 100 is none of the six sizes, yet \<^verbatim>\<open>set_region_size(100)\<close>
  is accepted and the region size becomes 100.\<close>

theorem set_region_size_counterexample:
  "100 \<notin> {SIZE_64, SIZE_128, SIZE_256, SIZE_512, SIZE_1024, SIZE_2048} \<and>
   \<not> isl (set_region_size new_storage 100) \<and>
   region_size (state_after new_storage (set_region_size new_storage 100)) = 100"
  by (simp add: set_region_size_def state_after_def size_defs Let_def)

text \<open>C10. For every region index, in range or not, \<^verbatim>\<open>get_map\<close> with the category
  \<^verbatim>\<open>TYPE_COLOR\<close> or \<^verbatim>\<open>TYPE_MAX\<close> returns the null image whatever the lists hold;
  \<^verbatim>\<open>TYPE_HEIGHT\<close> and \<^verbatim>\<open>TYPE_CONTROL\<close> are the categories that index a list. The
  method is \<^verbatim>\<open>const\<close>: it yields a value and no new state.\<close>

theorem get_map_categories:
  "get_map s i TYPE_COLOR = Inr None \<and> get_map s i TYPE_MAX = Inr None \<and>
   get_map s i TYPE_HEIGHT = Array_get (height_maps s) i \<and>
   get_map s i TYPE_CONTROL = Array_get (control_maps s) i"
  by (simp add: get_map_def type_defs)

end
